theory Spec2Isabelle
  imports Main "HOL-Library.Multiset" "HOL-Library.Sublist"
begin

section \<open>JavaScript values\<close>

text \<open>
  The dashboard handles upstream data as untyped values (\<^verbatim>\<open>any\<close>), so the model carries
  them as JSON trees. Objects are association lists (the first binding of a key is the one
  a lookup sees). Numbers are integers, which is what the upstream sends for ids and
  counters; strings are byte strings (UTF-8), where JavaScript has UTF-16 code units: the
  operations modelled here (\<^verbatim>\<open>split("\n")\<close>, \<^verbatim>\<open>replace\<close> with an ASCII pattern,
  concatenation, equality) agree on both.
\<close>

datatype json =
    JUndef
  | JNull
  | JBool bool
  | JNum int
  | JStr string
  | JArr "json list"
  | JObj "(string \<times> json) list"

text \<open>
  Exceptions are values. \<open>TypeError\<close> is what the runtime throws on a property read of
  \<^verbatim>\<open>null\<close>/\<^verbatim>\<open>undefined\<close>, on a call of something that is no function and on a failed
  conversion to a string; \<open>SyntaxError\<close> is a response body that is not JSON;
  \<open>FetchFailed\<close> is a rejected \<^verbatim>\<open>fetch\<close>; \<open>HttpError\<close> carries the message of the
  \<^verbatim>\<open>Error\<close> that \<^verbatim>\<open>fetchJsonWithEtag\<close> throws on a non-success status.
\<close>

datatype js_error = TypeError | SyntaxError | FetchFailed | HttpError string

fun and_then :: "js_error + 'a \<Rightarrow> ('a \<Rightarrow> js_error + 'b) \<Rightarrow> js_error + 'b" where
  "and_then (Inl e) f = Inl e"
| "and_then (Inr v) f = f v"

text \<open>\<^verbatim>\<open>xs.map(f)\<close> where \<open>f\<close> may throw: the first exception ends the traversal.\<close>

fun map_res :: "('a \<Rightarrow> js_error + 'b) \<Rightarrow> 'a list \<Rightarrow> js_error + 'b list" where
  "map_res f [] = Inr []"
| "map_res f (x # xs) =
     (case f x of
        Inl e \<Rightarrow> Inl e
      | Inr y \<Rightarrow> (case map_res f xs of Inl e \<Rightarrow> Inl e | Inr ys \<Rightarrow> Inr (y # ys)))"

text \<open>A function applied to the result of a computation that did not throw.\<close>

fun map_ok :: "('a \<Rightarrow> 'b) \<Rightarrow> js_error + 'a \<Rightarrow> js_error + 'b" where
  "map_ok g (Inl e) = Inl e"
| "map_ok g (Inr v) = Inr (g v)"

definition nullish :: "json \<Rightarrow> bool" where
  "nullish v = (v = JUndef \<or> v = JNull)"

text \<open>\<^verbatim>\<open>a ?? b\<close>\<close>

definition coalesce :: "json \<Rightarrow> json \<Rightarrow> json" where
  "coalesce a b = (if nullish a then b else a)"

text \<open>Truthiness, as \<^verbatim>\<open>if (v)\<close>, \<^verbatim>\<open>v && w\<close> and \<^verbatim>\<open>v || w\<close> test it.\<close>

fun truthy :: "json \<Rightarrow> bool" where
  "truthy JUndef = False"
| "truthy JNull = False"
| "truthy (JBool b) = b"
| "truthy (JNum n) = (n \<noteq> 0)"
| "truthy (JStr s) = (s \<noteq> [])"
| "truthy (JArr xs) = True"
| "truthy (JObj fs) = True"

text \<open>
  \<open>js_prop v k\<close> is the property read \<^verbatim>\<open>v.k\<close> on a value that is neither \<^verbatim>\<open>null\<close> nor
  \<^verbatim>\<open>undefined\<close>: an object yields its field, any other value yields \<^verbatim>\<open>undefined\<close> (none
  of the property names this program reads is defined on the prototypes of strings,
  numbers, booleans or arrays). \<open>get_prop\<close> is the read on any value, \<open>opt_prop\<close> is
  \<^verbatim>\<open>v?.k\<close>.
\<close>

fun js_prop :: "json \<Rightarrow> string \<Rightarrow> json" where
  "js_prop (JObj fs) k = (case map_of fs k of None \<Rightarrow> JUndef | Some v \<Rightarrow> v)"
| "js_prop v k = JUndef"

definition get_prop :: "json \<Rightarrow> string \<Rightarrow> js_error + json" where
  "get_prop v k = (if nullish v then Inl TypeError else Inr (js_prop v k))"

definition opt_prop :: "json \<Rightarrow> string \<Rightarrow> json" where
  "opt_prop v k = (if nullish v then JUndef else js_prop v k)"

subsection \<open>Conversion to a string\<close>

fun digit_char :: "nat \<Rightarrow> char" where
  "digit_char n = char_of (48 + n)"

fun nat_str :: "nat \<Rightarrow> string" where
  "nat_str n = (if n < 10 then [digit_char n] else nat_str (n div 10) @ [digit_char (n mod 10)])"

definition int_str :: "int \<Rightarrow> string" where
  "int_str i = (if i < 0 then CHR ''-'' # nat_str (nat (- i)) else nat_str (nat i))"

text \<open>
  \<open>to_str\<close> is the conversion a template literal \<^verbatim>\<open>`${v}`\<close> applies. An array joins the
  conversions of its elements with commas, \<^verbatim>\<open>null\<close> and \<^verbatim>\<open>undefined\<close> elements giving the
  empty string. A plain object gives \<^verbatim>\<open>[object Object]\<close>, unless it has a field of its own
  called \<^verbatim>\<open>toString\<close>: that field is no function, the inherited \<^verbatim>\<open>valueOf\<close> returns the object
  itself, and the conversion throws. (Integers of magnitude \<open>10\<^sup>2\<^sup>1\<close> and above, which
  JavaScript prints in exponent notation, are outside the model.)
\<close>

fun to_str :: "json \<Rightarrow> js_error + string"
  and join_elems :: "json list \<Rightarrow> js_error + string" where
  "to_str JUndef = Inr ''undefined''"
| "to_str JNull = Inr ''null''"
| "to_str (JBool b) = Inr (if b then ''true'' else ''false'')"
| "to_str (JNum n) = Inr (int_str n)"
| "to_str (JStr s) = Inr s"
| "to_str (JArr xs) = join_elems xs"
| "to_str (JObj fs) =
     (if ''toString'' \<in> set (map fst fs) then Inl TypeError else Inr ''[object Object]'')"
| "join_elems [] = Inr []"
| "join_elems (x # xs) =
     (case (if x = JUndef \<or> x = JNull then Inr [] else to_str x) of
        Inl e \<Rightarrow> Inl e
      | Inr s \<Rightarrow>
          (if xs = [] then Inr s
           else (case join_elems xs of Inl e \<Rightarrow> Inl e | Inr r \<Rightarrow> Inr (s @ '','' @ r))))"

subsection \<open>String methods\<close>

text \<open>
  \<^verbatim>\<open>s.replace(pat, "")\<close> with a string pattern removes the first occurrence of the pattern,
  wherever it stands.
\<close>

fun remove_first :: "string \<Rightarrow> string \<Rightarrow> string" where
  "remove_first pat [] = []"
| "remove_first pat (c # cs) =
     (if prefix pat (c # cs) then drop (length pat) (c # cs) else c # remove_first pat cs)"

text \<open>\<^verbatim>\<open>v.replace("refs/heads/", "")\<close>: only a string has the method.\<close>

definition strip_heads :: "json \<Rightarrow> js_error + string" where
  "strip_heads v = (case v of JStr s \<Rightarrow> Inr (remove_first ''refs/heads/'' s) | _ \<Rightarrow> Inl TypeError)"

text \<open>\<^verbatim>\<open>v.split("\n")[0]\<close>: only a string has the method.\<close>

definition first_line :: "json \<Rightarrow> js_error + string" where
  "first_line v = (case v of JStr s \<Rightarrow> Inr (takeWhile (\<lambda>c. c \<noteq> CHR 0x0A) s) | _ \<Rightarrow> Inl TypeError)"

text \<open>\<^verbatim>\<open>v.map(f)\<close>: only an array has the method.\<close>

definition array_elems :: "json \<Rightarrow> js_error + json list" where
  "array_elems v = (case v of JArr xs \<Rightarrow> Inr xs | _ \<Rightarrow> Inl TypeError)"

section \<open>The store (types.ts, store/memory.ts)\<close>

text \<open>
  A \<^verbatim>\<open>Map\<close> with string keys keeps its entries in insertion order; \<^verbatim>\<open>set\<close> on a key that is
  present replaces the value in place.
\<close>

type_synonym 'v js_map = "(string \<times> 'v) list"

definition map_get :: "'v js_map \<Rightarrow> string \<Rightarrow> 'v option" where
  "map_get m k = map_of m k"

definition map_has :: "'v js_map \<Rightarrow> string \<Rightarrow> bool" where
  "map_has m k = (map_of m k \<noteq> None)"

fun map_set :: "'v js_map \<Rightarrow> string \<Rightarrow> 'v \<Rightarrow> 'v js_map" where
  "map_set [] k v = [(k, v)]"
| "map_set ((k', v') # m) k v = (if k' = k then (k, v) # m else (k', v') # map_set m k v)"

definition map_values :: "'v js_map \<Rightarrow> 'v list" where
  "map_values m = map snd m"

text \<open>
  Record fields carry a prefix of their type (\<open>cr\<close>, \<open>ri\<close>, \<open>cs\<close>, \<open>fi\<close>, \<open>qr\<close>) where the
  source uses one name in several types. A field the source declares as a string but
  fills from upstream data is a \<open>json\<close> here. An optional field that is absent is
  \<open>JUndef\<close> (or \<open>None\<close>).
\<close>

record config_repo =
  cr_id :: string
  cr_name :: string

record app_config =
  repos :: "config_repo list"
  githubToken :: "string option"
  globalRefreshSeconds :: int
  repoUpdateIntervalSeconds :: int
  feedLimit :: int
  port :: int

record repo_info =
  ri_repo :: string
  ri_displayName :: "string option"
  html_url :: json
  description :: json
  stargazers_count :: json
  forks_count :: json
  open_issues_count :: json
  pushed_at :: json
  default_branch :: json

record commit_stats =
  cs_sha :: json
  additions :: json
  deletions :: json
  filesChanged :: json

record feed_item =
  fi_type :: json
  fi_icon :: string
  fi_when :: json
  fi_repo :: json
  fi_actor :: json
  fi_title :: json
  fi_url :: json
  fi_extra :: json
  fi_sha :: json
  fi_stats :: "commit_stats option"
  fi_displayName :: json

record quality_report =
  qr_repo :: string
  qr_displayName :: string
  score :: "int option"
  markdown :: string
  updatedAt :: string
  localPath :: string

record data_store =
  repoInfos :: "repo_info js_map"
  repoEvents :: "json list js_map"
  feedItems :: "feed_item list"
  commitStats :: "commit_stats js_map"
  qualityReports :: "quality_report js_map"

section \<open>Feed construction (services/feed.ts)\<close>

definition icon_commit :: string where
  "icon_commit = [CHR 0xF0, CHR 0x9F, CHR 0x93, CHR 0x9D]"

definition icon_default :: string where
  "icon_default = [CHR 0xF0, CHR 0x9F, CHR 0x93, CHR 0x8C]"

definition ICONS :: "(string \<times> string) list" where
  "ICONS =
    [(''PushEvent'', [CHR 0xE2, CHR 0xAC, CHR 0x86, CHR 0xEF, CHR 0xB8, CHR 0x8F]),
     (''PullRequestEvent'', [CHR 0xF0, CHR 0x9F, CHR 0x94, CHR 0x80]),
     (''IssuesEvent'', [CHR 0xE2, CHR 0x9D, CHR 0x97]),
     (''IssueCommentEvent'', [CHR 0xF0, CHR 0x9F, CHR 0x92, CHR 0xAC]),
     (''CreateEvent'', [CHR 0xF0, CHR 0x9F, CHR 0x8C, CHR 0xB1]),
     (''DeleteEvent'', [CHR 0xF0, CHR 0x9F, CHR 0x97, CHR 0x91, CHR 0xEF, CHR 0xB8, CHR 0x8F]),
     (''ReleaseEvent'', [CHR 0xF0, CHR 0x9F, CHR 0x8F, CHR 0xB7, CHR 0xEF, CHR 0xB8, CHR 0x8F]),
     (''ForkEvent'', [CHR 0xF0, CHR 0x9F, CHR 0x8D, CHR 0xB4]),
     (''WatchEvent'', [CHR 0xE2, CHR 0xAD, CHR 0x90]),
     (''CommitCommentEvent'', [CHR 0xF0, CHR 0x9F, CHR 0x93, CHR 0x9D]),
     (''MemberEvent'', [CHR 0xF0, CHR 0x9F, CHR 0x91, CHR 0xA5]),
     (''public'', [CHR 0xF0, CHR 0x9F, CHR 0x93, CHR 0xA3]),
     (''default'', icon_default),
     (''Commit'', icon_commit)]"

text \<open>
  \<^verbatim>\<open>ICONS[type] ?? ICONS.default\<close>. The key is the string conversion of \<open>type\<close>. (A key
  that names a member inherited from \<^verbatim>\<open>Object.prototype\<close>, such as \<^verbatim>\<open>constructor\<close>, would
  read that member; the model takes such a key as absent.)
\<close>

definition icon_of :: "json \<Rightarrow> js_error + string" where
  "icon_of ty =
     and_then (to_str ty) (\<lambda>k.
       Inr (case map_of ICONS k of None \<Rightarrow> icon_default | Some i \<Rightarrow> i))"

text \<open>The texts of the source that are not ASCII, as their UTF-8 bytes.\<close>

definition txt_merged :: string where
  "txt_merged = [CHR 0xE5, CHR 0xB7, CHR 0xB2, CHR 0xE5, CHR 0x90, CHR 0x88, CHR 0xE5, CHR 0xB9, CHR 0xB6]"

definition txt_comment :: string where
  "txt_comment = [CHR 0xE8, CHR 0xAF, CHR 0x84, CHR 0xE8, CHR 0xAE, CHR 0xBA]"

definition txt_release :: string where
  "txt_release = [CHR 0xE5, CHR 0x8F, CHR 0x91, CHR 0xE5, CHR 0xB8, CHR 0x83]"

definition txt_create :: string where
  "txt_create = [CHR 0xE5, CHR 0x88, CHR 0x9B, CHR 0xE5, CHR 0xBB, CHR 0xBA]"

definition txt_delete :: string where
  "txt_delete = [CHR 0xE5, CHR 0x88, CHR 0xA0, CHR 0xE9, CHR 0x99, CHR 0xA4]"

definition txt_the_repo :: string where
  "txt_the_repo = [CHR 0xE4, CHR 0xBA, CHR 0x86, CHR 0xE4, CHR 0xBB, CHR 0x93, CHR 0xE5, CHR 0xBA, CHR 0x93]"

text \<open>
  The object literal of lines 29 to 39, for one commit of a push event. The fields are
  evaluated in the order of the source: the title reads \<^verbatim>\<open>commit.message\<close> (which throws on
  a \<^verbatim>\<open>null\<close> commit) and splits it (which throws unless it is a string).
\<close>

definition commit_item ::
  "json \<Rightarrow> json \<Rightarrow> json \<Rightarrow> string \<Rightarrow> string \<Rightarrow> json \<Rightarrow> js_error + feed_item" where
  "commit_item created_at repo actor urlBase branch commit =
     and_then (get_prop commit ''message'') (\<lambda>m.
     and_then (first_line m) (\<lambda>line.
     and_then (to_str (js_prop commit ''sha'')) (\<lambda>sha_s.
     and_then (to_str (coalesce (coalesce (opt_prop (js_prop commit ''author'') ''name'') actor)
                 (JStr ''''))) (\<lambda>who.
       Inr \<lparr> fi_type = JStr ''Commit'',
             fi_icon = icon_commit,
             fi_when = created_at,
             fi_repo = repo,
             fi_actor = actor,
             fi_title = JStr (''Commit to '' @ branch @ '': '' @ line),
             fi_url = JStr (urlBase @ ''/commit/'' @ sha_s),
             fi_extra = JStr (''by '' @ who),
             fi_sha = js_prop commit ''sha'',
             fi_stats = None,
             fi_displayName = JUndef \<rparr>))))"

text \<open>Lines 41 to 70: title, url and extra of an event that is not expanded.\<close>

definition title_url_extra :: "json \<Rightarrow> json \<Rightarrow> string \<Rightarrow> js_error + (json \<times> json \<times> json)" where
  "title_url_extra ty p urlBase =
    (let url = JStr urlBase; extra = JStr '''' in
     if ty = JStr ''PullRequestEvent'' then
       (let pr = coalesce (js_prop p ''pull_request'') (JObj []) in
        and_then (to_str (js_prop p ''action'')) (\<lambda>a.
        and_then (to_str (js_prop pr ''number'')) (\<lambda>n.
        and_then (to_str (coalesce (js_prop pr ''title'') (JStr ''''))) (\<lambda>t.
          Inr (JStr (''PR '' @ a @ '' #'' @ n @ '': '' @ t),
               coalesce (js_prop pr ''html_url'') url,
               if js_prop p ''action'' = JStr ''closed'' \<and> truthy (js_prop pr ''merged'')
               then JStr txt_merged else extra)))))
     else if ty = JStr ''IssuesEvent'' then
       (let is = coalesce (js_prop p ''issue'') (JObj []) in
        and_then (to_str (js_prop p ''action'')) (\<lambda>a.
        and_then (to_str (js_prop is ''number'')) (\<lambda>n.
        and_then (to_str (coalesce (js_prop is ''title'') (JStr ''''))) (\<lambda>t.
          Inr (JStr (''Issue '' @ a @ '' #'' @ n @ '': '' @ t),
               coalesce (js_prop is ''html_url'') url, extra)))))
     else if ty = JStr ''IssueCommentEvent'' then
       (let is = coalesce (js_prop p ''issue'') (JObj []) in
        and_then (to_str (js_prop is ''number'')) (\<lambda>n.
        and_then (to_str (coalesce (js_prop is ''title'') (JStr ''''))) (\<lambda>t.
          Inr (JStr (''Issue '' @ txt_comment @ '' #'' @ n @ '': '' @ t),
               coalesce (coalesce (opt_prop (js_prop p ''comment'') ''html_url'') (js_prop is ''html_url'')) url,
               extra))))
     else if ty = JStr ''ReleaseEvent'' then
       (let rel = coalesce (js_prop p ''release'') (JObj []) in
        and_then (to_str (js_prop p ''action'')) (\<lambda>a.
        and_then (to_str (coalesce (js_prop rel ''tag_name'') (JStr ''''))) (\<lambda>t.
          Inr (JStr (txt_release @ '' '' @ a @ '': '' @ t),
               coalesce (js_prop rel ''html_url'') url, extra))))
     else if ty = JStr ''CreateEvent'' then
        and_then (to_str (js_prop p ''ref_type'')) (\<lambda>rt.
        and_then (to_str (js_prop p ''ref'')) (\<lambda>r.
          Inr (JStr (txt_create @ '' '' @ rt @ '': '' @ r), url, extra)))
     else if ty = JStr ''DeleteEvent'' then
        and_then (to_str (js_prop p ''ref_type'')) (\<lambda>rt.
        and_then (to_str (js_prop p ''ref'')) (\<lambda>r.
          Inr (JStr (txt_delete @ '' '' @ rt @ '': '' @ r), url, extra)))
     else if ty = JStr ''ForkEvent'' then
        Inr (JStr (''Fork '' @ txt_the_repo),
             coalesce (opt_prop (js_prop p ''forkee'') ''html_url'') url, extra)
     else if ty = JStr ''WatchEvent'' then
        Inr (JStr (''Star '' @ txt_the_repo), url, extra)
     else Inr (ty, url, extra))"

text \<open>
  The body of the \<^verbatim>\<open>try\<close> block (lines 26 to 80). \<open>ev\<close> is not \<^verbatim>\<open>null\<close> or
  \<^verbatim>\<open>undefined\<close> here: line 21 has read \<^verbatim>\<open>ev.type\<close>.
\<close>

definition event_body :: "json \<Rightarrow> json \<Rightarrow> json \<Rightarrow> json \<Rightarrow> string \<Rightarrow> js_error + feed_item list" where
  "event_body ev ty repo actor urlBase =
    (let p = coalesce (js_prop ev ''payload'') (JObj []) in
     if ty = JStr ''PushEvent'' \<and> truthy (js_prop p ''commits'') then
       and_then (strip_heads (coalesce (js_prop p ''ref'') (JStr ''''))) (\<lambda>branch.
       and_then (array_elems (js_prop p ''commits'')) (\<lambda>commits.
         map_res (commit_item (js_prop ev ''created_at'') repo actor urlBase branch) commits))
     else
       and_then (title_url_extra ty p urlBase) (\<lambda>(title, url, extra).
       and_then (icon_of ty) (\<lambda>icon.
         Inr [\<lparr> fi_type = ty,
                fi_icon = icon,
                fi_when = js_prop ev ''created_at'',
                fi_repo = repo,
                fi_actor = actor,
                fi_title = title,
                fi_url = url,
                fi_extra = extra,
                fi_sha = JUndef,
                fi_stats = None,
                fi_displayName = JUndef \<rparr>])))"

text \<open>Lines 21 and 23: the type and the actor of an event that is not \<^verbatim>\<open>null\<close>.\<close>

definition event_type :: "json \<Rightarrow> json" where
  "event_type ev = coalesce (js_prop ev ''type'') (JStr ''default'')"

definition actor_of :: "json \<Rightarrow> json" where
  "actor_of ev = coalesce (opt_prop (js_prop ev ''actor'') ''display_login'')
                          (opt_prop (js_prop ev ''actor'') ''login'')"

text \<open>
  \<^verbatim>\<open>eventToFeedItems\<close>. Lines 21 to 24 stand before the \<^verbatim>\<open>try\<close>: an exception there (the
  event is \<^verbatim>\<open>null\<close> or \<^verbatim>\<open>undefined\<close>, or its \<^verbatim>\<open>__repo\<close> has no string conversion) leaves
  the function. An exception of the body is caught (lines 81 to 84) and the result is the
  empty list.
\<close>

definition eventToFeedItems :: "json \<Rightarrow> js_error + feed_item list" where
  "eventToFeedItems ev =
     (if nullish ev then Inl TypeError
      else and_then (to_str (js_prop ev ''__repo'')) (\<lambda>r.
             case event_body ev (event_type ev) (js_prop ev ''__repo'') (actor_of ev)
                    (''https://github.com/'' @ r) of
               Inl e \<Rightarrow> Inr []
             | Inr items \<Rightarrow> Inr items))"

subsection \<open>Dates and sorting\<close>

text \<open>
  \<^verbatim>\<open>new Date(v).getTime()\<close>, in milliseconds; \<open>None\<close> is \<^verbatim>\<open>NaN\<close> (an invalid date). How a
  string is read as a date is the runtime's business (\<^verbatim>\<open>Date.parse\<close>) and a parameter of
  the model. A number is a time value if it is within the range of dates; \<^verbatim>\<open>null\<close> and
  booleans convert to numbers; an object or an array is converted to a string first, which
  may throw.
\<close>

definition date_ms :: "(string \<Rightarrow> int option) \<Rightarrow> json \<Rightarrow> js_error + int option" where
  "date_ms date_parse v =
     (case v of
        JUndef \<Rightarrow> Inr None
      | JNull \<Rightarrow> Inr (Some 0)
      | JBool b \<Rightarrow> Inr (Some (if b then 1 else 0))
      | JNum n \<Rightarrow> Inr (if abs n \<le> 8640000000000000 then Some n else None)
      | JStr s \<Rightarrow> Inr (date_parse s)
      | _ \<Rightarrow> and_then (to_str v) (\<lambda>s. Inr (date_parse s)))"

text \<open>Subtraction of numbers, one of which may be \<^verbatim>\<open>NaN\<close>.\<close>

fun num_sub :: "int option \<Rightarrow> int option \<Rightarrow> int option" where
  "num_sub (Some x) (Some y) = Some (x - y)"
| "num_sub _ _ = None"

definition byDescTime :: "(string \<Rightarrow> int option) \<Rightarrow> feed_item \<Rightarrow> feed_item \<Rightarrow> js_error + int option" where
  "byDescTime date_parse a b =
     and_then (date_ms date_parse (fi_when b)) (\<lambda>tb.
     and_then (date_ms date_parse (fi_when a)) (\<lambda>ta.
       Inr (num_sub tb ta)))"

text \<open>
  \<^verbatim>\<open>Array.prototype.sort\<close> with a comparator. The order is stable, and \<open>a\<close> moves behind
  \<open>b\<close> only when the comparator's value for \<open>(a, b)\<close> is positive (\<^verbatim>\<open>NaN\<close> counts as
  zero). The model is a stable insertion sort: with a consistent comparator every stable
  sort gives this result; with an inconsistent one the language leaves the order to the
  implementation, and the model shows one admissible outcome. A comparator that throws
  ends the sort.
\<close>

fun positive :: "int option \<Rightarrow> bool" where
  "positive (Some v) = (0 < v)"
| "positive None = False"

fun sort_insert :: "('a \<Rightarrow> 'a \<Rightarrow> js_error + int option) \<Rightarrow> 'a \<Rightarrow> 'a list \<Rightarrow> js_error + 'a list" where
  "sort_insert cmp x [] = Inr [x]"
| "sort_insert cmp x (y # ys) =
     (case cmp x y of
        Inl e \<Rightarrow> Inl e
      | Inr v \<Rightarrow>
          (if positive v
           then (case sort_insert cmp x ys of Inl e \<Rightarrow> Inl e | Inr r \<Rightarrow> Inr (y # r))
           else Inr (x # y # ys)))"

fun js_sort :: "('a \<Rightarrow> 'a \<Rightarrow> js_error + int option) \<Rightarrow> 'a list \<Rightarrow> js_error + 'a list" where
  "js_sort cmp [] = Inr []"
| "js_sort cmp (x # xs) =
     (case js_sort cmp xs of Inl e \<Rightarrow> Inl e | Inr s \<Rightarrow> sort_insert cmp x s)"

text \<open>
  \<^verbatim>\<open>xs.slice(0, n)\<close> for an integer \<open>n\<close>: a negative \<open>n\<close> counts from the end of the
  array.
\<close>

definition slice0 :: "int \<Rightarrow> 'a list \<Rightarrow> 'a list" where
  "slice0 n xs =
     (if n < 0 then take (nat (max 0 (int (length xs) + n))) xs
      else take (nat (min n (int (length xs)))) xs)"

subsection \<open>rebuildGlobalFeed\<close>

text \<open>Line 94: later entries of the configured list overwrite earlier ones of the same id.\<close>

definition nameMap :: "config_repo list \<Rightarrow> string js_map" where
  "nameMap rs = foldl (\<lambda>m r. map_set m (cr_id r) (cr_name r)) [] rs"

text \<open>Lines 96 to 103, over the commit-stat cache of the store.\<close>

definition withStats :: "commit_stats js_map \<Rightarrow> feed_item \<Rightarrow> js_error + feed_item" where
  "withStats stats item =
     (if fi_type item = JStr ''Commit'' \<and> truthy (fi_sha item) then
        and_then (to_str (fi_repo item)) (\<lambda>r.
        and_then (to_str (fi_sha item)) (\<lambda>s.
          case map_get stats (r @ ''@'' @ s) of
            Some cached \<Rightarrow> Inr (item\<lparr>fi_stats := Some cached\<rparr>)
          | None \<Rightarrow> Inr item))
      else Inr item)"

text \<open>
  \<^verbatim>\<open>nameMap.get(it.repo) || it.repo\<close>: the keys of the map are strings, so only a string
  finds an entry, and an empty name falls back to the id.
\<close>

definition display_name :: "string js_map \<Rightarrow> json \<Rightarrow> json" where
  "display_name names repo =
     (case repo of
        JStr r \<Rightarrow> (case map_get names r of
                     Some n \<Rightarrow> if n \<noteq> [] then JStr n else repo
                   | None \<Rightarrow> repo)
      | _ \<Rightarrow> repo)"

text \<open>The callback of line 107.\<close>

definition decorate :: "commit_stats js_map \<Rightarrow> string js_map \<Rightarrow> feed_item \<Rightarrow> js_error + feed_item" where
  "decorate stats names it =
     and_then (withStats stats it) (\<lambda>it'.
       Inr (it'\<lparr>fi_displayName := display_name names (fi_repo it)\<rparr>))"

text \<open>Line 92: the batches in the insertion order of the map, flattened by one level.\<close>

definition allEvents :: "data_store \<Rightarrow> json list" where
  "allEvents store = concat (map_values (repoEvents store))"

text \<open>Lines 105 to 107: the items before they are sorted and cut.\<close>

definition feed_candidates :: "app_config \<Rightarrow> data_store \<Rightarrow> js_error + feed_item list" where
  "feed_candidates cfg store =
     and_then (map_res eventToFeedItems (allEvents store)) (\<lambda>iss.
       map_res (decorate (commitStats store) (nameMap (repos cfg))) (concat iss))"

text \<open>
  \<^verbatim>\<open>rebuildGlobalFeed\<close> returns the store it leaves behind and the exception that left it,
  if any. The right-hand side of the assignment of line 105 is evaluated first; when it
  throws, the assignment does not happen.
\<close>

definition rebuildGlobalFeed ::
  "(string \<Rightarrow> int option) \<Rightarrow> app_config \<Rightarrow> data_store \<Rightarrow> js_error option \<times> data_store" where
  "rebuildGlobalFeed date_parse cfg store =
     (case and_then (feed_candidates cfg store) (js_sort (byDescTime date_parse)) of
        Inl e \<Rightarrow> (Some e, store)
      | Inr items \<Rightarrow> (None, store\<lparr>feedItems := slice0 (feedLimit cfg) items\<rparr>))"

section \<open>The conditional client (github/client.ts)\<close>

text \<open>
  The three maps of validation tokens, the rate budget (a field is \<open>None\<close> when
  \<^verbatim>\<open>parseInt\<close> gave \<^verbatim>\<open>NaN\<close>) and the state of the client. A caller of
  \<^verbatim>\<open>fetchJsonWithEtag\<close> passes one of the client's own three maps with a key: the model
  passes the name of the map.
\<close>

record etag_cache =
  etag_info :: "string js_map"
  etag_events :: "string js_map"
  etag_commits :: "string js_map"

datatype etag_slot = SlotInfo | SlotEvents | SlotCommits

record rate_limit_info =
  rl_limit :: "int option"
  rl_remaining :: "int option"
  rl_reset :: "int option"

record github_client =
  token :: "string option"
  etags :: etag_cache
  rate :: rate_limit_info

text \<open>
  What goes over the wire. Header names are in lower case, as \<^verbatim>\<open>Headers\<close> keeps them. A
  response carries its body twice: as text, when it can be read, and as the JSON value it
  parses to, when it does. The upstream is a function from requests to responses;
  \<open>None\<close> is a \<^verbatim>\<open>fetch\<close> that rejects.
\<close>

record request =
  req_url :: string
  req_headers :: "string js_map"

record response =
  status :: nat
  statusText :: string
  headers :: "string js_map"
  body_text :: "string option"
  body_json :: "json option"

datatype fetch_outcome = Status200 json | Status304

definition new_client :: "string option \<Rightarrow> github_client" where
  "new_client tok =
     \<lparr> token = tok,
       etags = \<lparr> etag_info = [], etag_events = [], etag_commits = [] \<rparr>,
       rate = \<lparr> rl_limit = Some 5000, rl_remaining = Some 5000, rl_reset = Some 0 \<rparr> \<rparr>"

definition etag_get :: "etag_cache \<Rightarrow> etag_slot \<times> string \<Rightarrow> string option" where
  "etag_get c ek =
     (case fst ek of
        SlotInfo \<Rightarrow> map_get (etag_info c) (snd ek)
      | SlotEvents \<Rightarrow> map_get (etag_events c) (snd ek)
      | SlotCommits \<Rightarrow> map_get (etag_commits c) (snd ek))"

definition etag_set :: "etag_cache \<Rightarrow> etag_slot \<times> string \<Rightarrow> string \<Rightarrow> etag_cache" where
  "etag_set c ek tag =
     (case fst ek of
        SlotInfo \<Rightarrow> c\<lparr>etag_info := map_set (etag_info c) (snd ek) tag\<rparr>
      | SlotEvents \<Rightarrow> c\<lparr>etag_events := map_set (etag_events c) (snd ek) tag\<rparr>
      | SlotCommits \<Rightarrow> c\<lparr>etag_commits := map_set (etag_commits c) (snd ek) tag\<rparr>)"

text \<open>\<^verbatim>\<open>ghHeaders\<close> (lines 3 to 11).\<close>

definition ghHeaders :: "string option \<Rightarrow> string js_map \<Rightarrow> string js_map" where
  "ghHeaders tok extra =
     (let h = [(''accept'', ''application/vnd.github+json''),
               (''user-agent'', ''deno-github-dashboard'')];
          h1 = (case tok of
                  Some t \<Rightarrow> if t \<noteq> [] then map_set h ''authorization'' (''Bearer '' @ t) else h
                | None \<Rightarrow> h)
      in foldl (\<lambda>m kv. map_set m (fst kv) (snd kv)) h1 extra)"

text \<open>
  \<^verbatim>\<open>parseInt(s, 10)\<close>: white space, a sign, then digits; \<^verbatim>\<open>NaN\<close> when there is no digit.
  (White space is the ASCII white space here.)
\<close>

definition is_space :: "char \<Rightarrow> bool" where
  "is_space c = (c \<in> set [CHR '' '', CHR 0x09, CHR 0x0A, CHR 0x0B, CHR 0x0C, CHR 0x0D])"

definition is_digit :: "char \<Rightarrow> bool" where
  "is_digit c = (48 \<le> (of_char c :: nat) \<and> (of_char c :: nat) \<le> 57)"

definition digits_value :: "string \<Rightarrow> int" where
  "digits_value ds = foldl (\<lambda>a c. 10 * a + (int (of_char c) - 48)) 0 ds"

definition parseInt10 :: "string \<Rightarrow> int option" where
  "parseInt10 s =
     (let t = dropWhile is_space s;
          neg = (t \<noteq> [] \<and> hd t = CHR ''-'');
          u = (if t \<noteq> [] \<and> (hd t = CHR ''-'' \<or> hd t = CHR ''+'') then tl t else t);
          ds = takeWhile is_digit u
      in if ds = [] then None
         else Some (if neg then - digits_value ds else digits_value ds))"

text \<open>\<^verbatim>\<open>res.headers.get(name) || "0"\<close>\<close>

definition header_or_zero :: "response \<Rightarrow> string \<Rightarrow> string" where
  "header_or_zero res name =
     (case map_get (headers res) name of
        Some v \<Rightarrow> if v \<noteq> [] then v else ''0''
      | None \<Rightarrow> ''0'')"

definition updateRateLimit :: "response \<Rightarrow> rate_limit_info" where
  "updateRateLimit res =
     \<lparr> rl_limit = parseInt10 (header_or_zero res ''x-ratelimit-limit''),
       rl_remaining = parseInt10 (header_or_zero res ''x-ratelimit-remaining''),
       rl_reset = parseInt10 (header_or_zero res ''x-ratelimit-reset'') \<rparr>"

text \<open>
  \<^verbatim>\<open>fetchJsonWithEtag\<close> up to its \<^verbatim>\<open>await fetch\<close> (lines 39 to 44): the request, with the
  stored token as \<^verbatim>\<open>If-None-Match\<close> when there is a non-empty one.
\<close>

definition conditional_request ::
  "github_client \<Rightarrow> string \<Rightarrow> (etag_slot \<times> string) option \<Rightarrow> request" where
  "conditional_request gh url etagKey =
     (let hdrs = (case etagKey of
                    None \<Rightarrow> []
                  | Some ek \<Rightarrow>
                      (case etag_get (etags gh) ek of
                         Some tag \<Rightarrow> if tag \<noteq> [] then [(''if-none-match'', tag)] else []
                       | None \<Rightarrow> []))
      in \<lparr> req_url = url, req_headers = ghHeaders (token gh) hdrs \<rparr>)"

text \<open>\<^verbatim>\<open>res.ok\<close>\<close>

definition ok :: "response \<Rightarrow> bool" where
  "ok res = (200 \<le> status res \<and> status res \<le> 299)"

text \<open>
  \<^verbatim>\<open>fetchJsonWithEtag\<close> from the response on (lines 45 to 54). The result is the outcome
  or the exception, and the client as the call leaves it.
\<close>

definition on_response ::
  "github_client \<Rightarrow> string \<Rightarrow> (etag_slot \<times> string) option \<Rightarrow> response option \<Rightarrow>
   (js_error + fetch_outcome) \<times> github_client" where
  "on_response gh url etagKey fetched =
     (case fetched of
        None \<Rightarrow> (Inl FetchFailed, gh)
      | Some res \<Rightarrow>
          (let gh1 = gh\<lparr>rate := updateRateLimit res\<rparr> in
           if status res = 304 then (Inr Status304, gh1)
           else if \<not> ok res then
             (Inl (HttpError (nat_str (status res) @ '' '' @ statusText res @ '' for '' @ url
                     @ '' :: '' @ (case body_text res of Some t \<Rightarrow> t | None \<Rightarrow> []))), gh1)
           else
             (case body_json res of
                None \<Rightarrow> (Inl SyntaxError, gh1)
              | Some data \<Rightarrow>
                  (case (map_get (headers res) ''etag'', etagKey) of
                     (Some etag, Some ek) \<Rightarrow>
                       if etag \<noteq> []
                       then (Inr (Status200 data), gh1\<lparr>etags := etag_set (etags gh1) ek etag\<rparr>)
                       else (Inr (Status200 data), gh1)
                   | _ \<Rightarrow> (Inr (Status200 data), gh1)))))"

definition fetchJsonWithEtag ::
  "(request \<Rightarrow> response option) \<Rightarrow> github_client \<Rightarrow> string \<Rightarrow> (etag_slot \<times> string) option \<Rightarrow>
   (js_error + fetch_outcome) \<times> github_client" where
  "fetchJsonWithEtag net gh url etagKey =
     on_response gh url etagKey (net (conditional_request gh url etagKey))"

text \<open>
  \<^verbatim>\<open>getRepoInfo\<close> (lines 57 to 84). The body of a 200 response is read field by field, so a
  body that is \<^verbatim>\<open>null\<close> throws.
\<close>

definition repo_info_of :: "string \<Rightarrow> json \<Rightarrow> js_error + repo_info" where
  "repo_info_of repoId info =
     (if nullish info then Inl TypeError
      else Inr \<lparr> ri_repo = repoId,
                 ri_displayName = None,
                 html_url = js_prop info ''html_url'',
                 description = js_prop info ''description'',
                 stargazers_count = js_prop info ''stargazers_count'',
                 forks_count = js_prop info ''forks_count'',
                 open_issues_count = js_prop info ''open_issues_count'',
                 pushed_at = js_prop info ''updated_at'',
                 default_branch = js_prop info ''default_branch'' \<rparr>)"

definition getRepoInfo ::
  "(request \<Rightarrow> response option) \<Rightarrow> github_client \<Rightarrow> string \<Rightarrow>
   (js_error + repo_info option) \<times> github_client" where
  "getRepoInfo net gh repoId =
     (case fetchJsonWithEtag net gh (''https://api.github.com/repos/'' @ repoId)
             (Some (SlotInfo, repoId)) of
        (Inl e, gh') \<Rightarrow> (Inl e, gh')
      | (Inr Status304, gh') \<Rightarrow> (Inr None, gh')
      | (Inr (Status200 info), gh') \<Rightarrow>
          (case repo_info_of repoId info of
             Inl e \<Rightarrow> (Inl e, gh')
           | Inr i \<Rightarrow> (Inr (Some i), gh')))"

text \<open>
  \<^verbatim>\<open>{ ...ev, __repo: repoId }\<close> (line 93). The spread copies the fields of an object, the
  elements of an array under their indices, the characters of a string under theirs, and
  nothing of any other value.
\<close>

definition indexed :: "json list \<Rightarrow> (string \<times> json) list" where
  "indexed xs = map (\<lambda>(i, x). (nat_str i, x)) (zip [0 ..< length xs] xs)"

definition own_fields :: "json \<Rightarrow> (string \<times> json) list" where
  "own_fields v =
     (case v of
        JObj fs \<Rightarrow> fs
      | JArr xs \<Rightarrow> indexed xs
      | JStr s \<Rightarrow> indexed (map (\<lambda>c. JStr [c]) s)
      | _ \<Rightarrow> [])"

definition tag_event :: "string \<Rightarrow> json \<Rightarrow> json" where
  "tag_event repoId ev = JObj (map_set (own_fields ev) ''__repo'' (JStr repoId))"

text \<open>\<^verbatim>\<open>getRepoEvents\<close> (lines 86 to 94).\<close>

definition getRepoEvents ::
  "(request \<Rightarrow> response option) \<Rightarrow> github_client \<Rightarrow> string \<Rightarrow>
   (js_error + json list) \<times> github_client" where
  "getRepoEvents net gh repoId =
     (case fetchJsonWithEtag net gh
             (''https://api.github.com/networks/'' @ repoId @ ''/events?per_page=30'')
             (Some (SlotEvents, repoId)) of
        (Inl e, gh') \<Rightarrow> (Inl e, gh')
      | (Inr Status304, gh') \<Rightarrow> (Inr [], gh')
      | (Inr (Status200 data), gh') \<Rightarrow>
          (case array_elems data of
             Inl e \<Rightarrow> (Inl e, gh')
           | Inr evs \<Rightarrow> (Inr (map (tag_event repoId) evs), gh')))"

text \<open>
  \<^verbatim>\<open>getCommitStats\<close> (lines 96 to 111). The sha is whatever the push event carried; key and
  url are template literals over it. The function is given in the two halves around its
  \<^verbatim>\<open>await\<close>, which the scheduler's concurrent calls interleave.
\<close>

definition commit_key :: "string \<Rightarrow> json \<Rightarrow> js_error + string" where
  "commit_key repoId sha = and_then (to_str sha) (\<lambda>s. Inr (repoId @ ''@'' @ s))"

definition commit_url :: "string \<Rightarrow> string \<Rightarrow> string" where
  "commit_url repoId s = ''https://api.github.com/repos/'' @ repoId @ ''/commits/'' @ s"

definition commit_stats_of :: "json \<Rightarrow> json \<Rightarrow> commit_stats" where
  "commit_stats_of sha data =
     \<lparr> cs_sha = sha,
       additions = coalesce (opt_prop (opt_prop data ''stats'') ''additions'') (JNum 0),
       deletions = coalesce (opt_prop (opt_prop data ''stats'') ''deletions'') (JNum 0),
       filesChanged =
         (case opt_prop data ''files'' of
            JArr fs \<Rightarrow> JNum (int (length fs))
          | _ \<Rightarrow> coalesce (opt_prop (opt_prop data ''stats'') ''total'') (JNum 0)) \<rparr>"

definition getCommitStats_request :: "github_client \<Rightarrow> string \<Rightarrow> json \<Rightarrow> js_error + request" where
  "getCommitStats_request gh repoId sha =
     and_then (to_str sha) (\<lambda>s.
       Inr (conditional_request gh (commit_url repoId s) (Some (SlotCommits, repoId @ ''@'' @ s))))"

definition getCommitStats_response ::
  "github_client \<Rightarrow> string \<Rightarrow> json \<Rightarrow> response option \<Rightarrow>
   (js_error + commit_stats option) \<times> github_client" where
  "getCommitStats_response gh repoId sha fetched =
     (case to_str sha of
        Inl e \<Rightarrow> (Inl e, gh)
      | Inr s \<Rightarrow>
          (case on_response gh (commit_url repoId s) (Some (SlotCommits, repoId @ ''@'' @ s))
                  fetched of
             (Inl e, gh') \<Rightarrow> (Inl e, gh')
           | (Inr Status304, gh') \<Rightarrow> (Inr None, gh')
           | (Inr (Status200 data), gh') \<Rightarrow> (Inr (Some (commit_stats_of sha data)), gh')))"

definition getCommitStats ::
  "(request \<Rightarrow> response option) \<Rightarrow> github_client \<Rightarrow> string \<Rightarrow> json \<Rightarrow>
   (js_error + commit_stats option) \<times> github_client" where
  "getCommitStats net gh repoId sha =
     (case getCommitStats_request gh repoId sha of
        Inl e \<Rightarrow> (Inl e, gh)
      | Inr rq \<Rightarrow> getCommitStats_response gh repoId sha (net rq))"

section \<open>The update scheduler (services/scheduler.ts)\<close>

subsection \<open>buildQueue\<close>

text \<open>The comparator of lines 35 to 40, over the cached infos.\<close>

definition byPushedAt ::
  "(string \<Rightarrow> int option) \<Rightarrow> repo_info js_map \<Rightarrow> config_repo \<Rightarrow> config_repo \<Rightarrow> js_error + int option" where
  "byPushedAt date_parse infos a b =
     (case (map_get infos (cr_id a), map_get infos (cr_id b)) of
        (Some ia, Some ib) \<Rightarrow>
          and_then (date_ms date_parse (pushed_at ib)) (\<lambda>tb.
          and_then (date_ms date_parse (pushed_at ia)) (\<lambda>ta.
            Inr (num_sub tb ta)))
      | _ \<Rightarrow> Inr (Some 0))"

definition buildQueue ::
  "(string \<Rightarrow> int option) \<Rightarrow> app_config \<Rightarrow> data_store \<Rightarrow> js_error + config_repo list" where
  "buildQueue date_parse cfg store = js_sort (byPushedAt date_parse (repoInfos store)) (repos cfg)"

subsection \<open>updateRepo\<close>

text \<open>
  \<^verbatim>\<open>for (const c of v)\<close>: the elements of an array, the characters (code points) of a
  string; nothing else that JSON can carry is iterable.
\<close>

definition is_continuation :: "char \<Rightarrow> bool" where
  "is_continuation c = (128 \<le> (of_char c :: nat) \<and> (of_char c :: nat) < 192)"

function code_points :: "string \<Rightarrow> string list" where
  "code_points [] = []"
| "code_points (c # cs) =
     (c # takeWhile is_continuation cs) # code_points (dropWhile is_continuation cs)"
  by pat_completeness auto
termination
  by (relation "measure length") (auto simp: le_imp_less_Suc length_dropWhile_le)

definition iter_values :: "json \<Rightarrow> js_error + json list" where
  "iter_values v =
     (case v of
        JArr xs \<Rightarrow> Inr xs
      | JStr s \<Rightarrow> Inr (map JStr (code_points s))
      | _ \<Rightarrow> Inl TypeError)"

text \<open>Lines 80 to 85: the two nested loops that collect the shas of the pushed commits.\<close>

fun push_shas :: "json list \<Rightarrow> json list \<Rightarrow> js_error + json list" where
  "push_shas [] commits = Inr commits"
| "push_shas (c # cs) commits =
     (case get_prop c ''sha'' of
        Inl e \<Rightarrow> Inl e
      | Inr sha \<Rightarrow> push_shas cs (commits @ [sha]))"

fun scan_events :: "json list \<Rightarrow> json list \<Rightarrow> js_error + json list" where
  "scan_events [] commits = Inr commits"
| "scan_events (ev # evs) commits =
     (case get_prop ev ''type'' of
        Inl e \<Rightarrow> Inl e
      | Inr ty \<Rightarrow>
          if ty = JStr ''PushEvent'' \<and> truthy (opt_prop (js_prop ev ''payload'') ''commits'')
          then (case iter_values (js_prop (js_prop ev ''payload'') ''commits'') of
                  Inl e \<Rightarrow> Inl e
                | Inr cs \<Rightarrow>
                    (case push_shas cs commits of
                       Inl e \<Rightarrow> Inl e
                     | Inr commits' \<Rightarrow> scan_events evs commits'))
          else scan_events evs commits)"

text \<open>
  Lines 86 and 87: \<^verbatim>\<open>commits.filter(sha => !commitStats.has(`${repo.id}@${sha}`))\<close>, where
  the template literal may throw, and \<^verbatim>\<open>.slice(0, 5)\<close>.
\<close>

fun filter_uncached :: "commit_stats js_map \<Rightarrow> string \<Rightarrow> json list \<Rightarrow> js_error + json list" where
  "filter_uncached stats repoId [] = Inr []"
| "filter_uncached stats repoId (sha # shas) =
     (case commit_key repoId sha of
        Inl e \<Rightarrow> Inl e
      | Inr k \<Rightarrow>
          (case filter_uncached stats repoId shas of
             Inl e \<Rightarrow> Inl e
           | Inr rest \<Rightarrow> Inr (if \<not> map_has stats k then sha # rest else rest)))"

definition toFetch :: "commit_stats js_map \<Rightarrow> string \<Rightarrow> json list \<Rightarrow> js_error + json list" where
  "toFetch stats repoId events =
     and_then (scan_events events []) (\<lambda>commits.
     and_then (filter_uncached stats repoId commits) (\<lambda>fresh.
       Inr (slice0 5 fresh)))"

text \<open>
  Lines 89 to 91: one \<^verbatim>\<open>getCommitStats\<close> call per sha, all started before any response is
  in (every request is built on the client as it is then), and the responses taken as they
  are listed.
\<close>

fun settle_stats ::
  "(request \<Rightarrow> response option) \<Rightarrow> string \<Rightarrow> (json \<times> (js_error + request)) list \<Rightarrow> github_client \<Rightarrow>
   (js_error + commit_stats option) list \<times> github_client" where
  "settle_stats net repoId [] gh = ([], gh)"
| "settle_stats net repoId ((sha, rq) # rqs) gh =
     (case rq of
        Inl e \<Rightarrow> (case settle_stats net repoId rqs gh of (rs, gh') \<Rightarrow> (Inl e # rs, gh'))
      | Inr r \<Rightarrow>
          (case getCommitStats_response gh repoId sha (net r) of
             (res, gh1) \<Rightarrow>
               (case settle_stats net repoId rqs gh1 of (rs, gh') \<Rightarrow> (res # rs, gh'))))"

definition fetch_stats ::
  "(request \<Rightarrow> response option) \<Rightarrow> github_client \<Rightarrow> string \<Rightarrow> json list \<Rightarrow>
   (js_error + commit_stats option) list \<times> github_client" where
  "fetch_stats net gh repoId shas =
     settle_stats net repoId (map (\<lambda>sha. (sha, getCommitStats_request gh repoId sha)) shas) gh"

text \<open>
  Lines 92 to 99: every fulfilled, non-null result is stored under the key of its sha. An
  exception here leaves the loop with the entries stored so far.
\<close>

fun store_stats ::
  "string \<Rightarrow> (js_error + commit_stats option) list \<Rightarrow> commit_stats js_map \<Rightarrow>
   js_error option \<times> commit_stats js_map" where
  "store_stats repoId [] stats = (None, stats)"
| "store_stats repoId (Inr (Some v) # rs) stats =
     (case commit_key repoId (cs_sha v) of
        Inl e \<Rightarrow> (Some e, stats)
      | Inr k \<Rightarrow> store_stats repoId rs (map_set stats k v))"
| "store_stats repoId (r # rs) stats = store_stats repoId rs stats"

text \<open>
  \<^verbatim>\<open>updateRepo\<close> returns the store and the client as it leaves them, and the shas for which
  it called \<^verbatim>\<open>getCommitStats\<close>. The metadata and the events are requested together; they
  use different token maps, so each request is what it would be alone, and the responses are
  taken metadata first. An exception after the fetches (lines 80 to 99) is caught by the
  outer \<^verbatim>\<open>catch\<close>, with the store as it is by then.
\<close>

record update_result =
  ur_store :: data_store
  ur_client :: github_client
  ur_fetched :: "json list"

definition store_info :: "config_repo \<Rightarrow> js_error + repo_info option \<Rightarrow> data_store \<Rightarrow> data_store" where
  "store_info repo infoRes store =
     (case infoRes of
        Inr (Some info) \<Rightarrow>
          store\<lparr>repoInfos := map_set (repoInfos store) (cr_id repo)
                   (info\<lparr>ri_displayName := Some (cr_name repo)\<rparr>)\<rparr>
      | _ \<Rightarrow> store)"

definition store_events :: "config_repo \<Rightarrow> json list \<Rightarrow> data_store \<Rightarrow> data_store" where
  "store_events repo events store =
     (if events \<noteq> [] \<or> \<not> map_has (repoEvents store) (cr_id repo)
      then store\<lparr>repoEvents := map_set (repoEvents store) (cr_id repo) events\<rparr>
      else store)"

definition updateRepo ::
  "(request \<Rightarrow> response option) \<Rightarrow> github_client \<Rightarrow> data_store \<Rightarrow> config_repo \<Rightarrow> update_result" where
  "updateRepo net gh store repo =
     (case getRepoInfo net gh (cr_id repo) of (infoRes, gh1) \<Rightarrow>
      case getRepoEvents net gh1 (cr_id repo) of (eventsRes, gh2) \<Rightarrow>
        (let store1 = store_info repo infoRes store in
         case eventsRes of
           Inl e \<Rightarrow> \<lparr> ur_store = store1, ur_client = gh2, ur_fetched = [] \<rparr>
         | Inr events \<Rightarrow>
             (let store2 = store_events repo events store1 in
              case toFetch (commitStats store2) (cr_id repo) events of
                Inl e \<Rightarrow> \<lparr> ur_store = store2, ur_client = gh2, ur_fetched = [] \<rparr>
              | Inr shas \<Rightarrow>
                  (case fetch_stats net gh2 (cr_id repo) shas of (results, gh3) \<Rightarrow>
                     \<lparr> ur_store = store2\<lparr>commitStats :=
                                     snd (store_stats (cr_id repo) results (commitStats store2))\<rparr>,
                       ur_client = gh3,
                       ur_fetched = shas \<rparr>))))"

subsection \<open>tick\<close>

text \<open>
  One tick (lines 47 to 54): the queue is rebuilt when it is empty, its head is taken and
  updated, and the feed is rebuilt. The result is the queue, the store and the client the
  tick leaves, and the exception that ended it, if any.
\<close>

definition tick ::
  "(request \<Rightarrow> response option) \<Rightarrow> (string \<Rightarrow> int option) \<Rightarrow> app_config \<Rightarrow>
   config_repo list \<Rightarrow> github_client \<Rightarrow> data_store \<Rightarrow>
   js_error option \<times> config_repo list \<times> github_client \<times> data_store" where
  "tick net date_parse cfg queue gh store =
     (case (if queue = [] then buildQueue date_parse cfg store else Inr queue) of
        Inl e \<Rightarrow> (Some e, queue, gh, store)
      | Inr [] \<Rightarrow> (None, [], gh, store)
      | Inr (repo # rest) \<Rightarrow>
          (let u = updateRepo net gh store repo;
               (err, store') = rebuildGlobalFeed date_parse cfg (ur_store u)
           in (err, rest, ur_client u, store')))"

section \<open>Vocabulary of the statements\<close>







text \<open>
  A configured repository is known when the store has its metadata and the \<open>pushed_at\<close>
  attribute of that metadata parses to a date; \<open>pushed_ms\<close> is that date.
\<close>

definition known :: "(string \<Rightarrow> int option) \<Rightarrow> repo_info js_map \<Rightarrow> config_repo \<Rightarrow> bool" where
  "known dp infos r =
     (case map_get infos (cr_id r) of
        Some i \<Rightarrow> (case date_ms dp (pushed_at i) of Inr (Some t) \<Rightarrow> True | _ \<Rightarrow> False)
      | None \<Rightarrow> False)"

definition pushed_ms :: "(string \<Rightarrow> int option) \<Rightarrow> repo_info js_map \<Rightarrow> config_repo \<Rightarrow> int" where
  "pushed_ms dp infos r =
     (case map_get infos (cr_id r) of
        Some i \<Rightarrow> (case date_ms dp (pushed_at i) of Inr (Some t) \<Rightarrow> t | _ \<Rightarrow> 0)
      | None \<Rightarrow> 0)"

text \<open>
  A value is printable when it has a string conversion. A commit of a push event is well
  formed when its message is a string and its sha and the name the item is signed with are
  printable: these are the commits for which the object literal of lines 29 to 39 is built
  without an exception.
\<close>

definition printable :: "json \<Rightarrow> bool" where
  "printable v = (case to_str v of Inr s \<Rightarrow> True | Inl e \<Rightarrow> False)"

definition commit_wf :: "json \<Rightarrow> json \<Rightarrow> bool" where
  "commit_wf actor c =
     ((case js_prop c ''message'' of JStr m \<Rightarrow> True | _ \<Rightarrow> False) \<and>
      printable (js_prop c ''sha'') \<and>
      printable (coalesce (coalesce (opt_prop (js_prop c ''author'') ''name'') actor) (JStr '''')))"

text \<open>
  The key of an item is \<^verbatim>\<open>`${item.repo}@${item.sha}`\<close>. \<open>attach key c\<close> is what the
  arrival of the stat \<open>c\<close> under \<open>key\<close> does to an item: a \<^verbatim>\<open>Commit\<close> item that carries a
  sha and has this key gets \<open>c\<close> as its stats, every other item stays as it is.
\<close>

definition item_key :: "feed_item \<Rightarrow> js_error + string" where
  "item_key it =
     and_then (to_str (fi_repo it)) (\<lambda>r.
     and_then (to_str (fi_sha it)) (\<lambda>s. Inr (r @ ''@'' @ s)))"

definition attach :: "string \<Rightarrow> commit_stats \<Rightarrow> feed_item \<Rightarrow> feed_item" where
  "attach key c it =
     (if fi_type it = JStr ''Commit'' \<and> truthy (fi_sha it) \<and> item_key it = Inr key
      then it\<lparr>fi_stats := Some c\<rparr> else it)"

section \<open>Example data\<close>

definition example_parse :: "string \<Rightarrow> int option" where
  "example_parse s =
     (if s = ''2024-05-01T10:00:00Z'' then Some 1714557600000
      else if s = ''2024-05-02T10:00:00Z'' then Some 1714644000000
      else if s = ''2024-05-03T10:00:00Z'' then Some 1714730400000
      else None)"

definition example_push :: json where
  "example_push =
     JObj [(''type'', JStr ''PushEvent''),
           (''actor'', JObj [(''login'', JStr ''alice'')]),
           (''created_at'', JStr ''2024-05-02T10:00:00Z''),
           (''payload'', JObj [(''ref'', JStr ''refs/heads/main''),
              (''commits'', JArr [
                 JObj [(''sha'', JStr ''abc123''),
                       (''message'', JStr (''Fix bug'' @ [CHR 0x0A] @ ''details'')),
                       (''author'', JObj [(''name'', JStr ''Alice'')])],
                 JObj [(''sha'', JStr ''def456''), (''message'', JStr ''Add feature'')]])]),
           (''__repo'', JStr ''octo/app'')]"

definition example_watch :: json where
  "example_watch =
     JObj [(''type'', JStr ''WatchEvent''),
           (''actor'', JObj [(''login'', JStr ''bob'')]),
           (''created_at'', JStr ''2024-05-03T10:00:00Z''),
           (''payload'', JObj [(''action'', JStr ''started'')]),
           (''__repo'', JStr ''octo/app'')]"

definition example_issue :: json where
  "example_issue =
     JObj [(''type'', JStr ''IssuesEvent''),
           (''actor'', JObj [(''login'', JStr ''carol'')]),
           (''created_at'', JStr ''2024-05-01T10:00:00Z''),
           (''payload'', JObj [(''action'', JStr ''opened''),
              (''issue'', JObj [(''number'', JNum 7), (''title'', JStr ''Crash'')])]),
           (''__repo'', JStr ''octo/lib'')]"

definition example_cfg :: app_config where
  "example_cfg =
     \<lparr> repos = [\<lparr>cr_id = ''octo/app'', cr_name = ''App''\<rparr>,
                \<lparr>cr_id = ''octo/lib'', cr_name = ''Lib''\<rparr>],
       githubToken = None, globalRefreshSeconds = 60, repoUpdateIntervalSeconds = 10,
       feedLimit = 2, port = 8000 \<rparr>"

definition example_store :: data_store where
  "example_store =
     \<lparr> repoInfos = [],
       repoEvents = [(''octo/app'', [example_push, example_watch]),
                     (''octo/lib'', [example_issue])],
       feedItems = [],
       commitStats = [],
       qualityReports = [] \<rparr>"



definition example_item :: feed_item where
  "example_item =
     \<lparr> fi_type = JStr ''Commit'', fi_icon = icon_commit, fi_when = JStr ''2024-05-02T10:00:00Z'',
       fi_repo = JStr ''octo/app'', fi_actor = JStr ''alice'',
       fi_title = JStr ''Commit to main: Fix bug'',
       fi_url = JStr ''https://github.com/octo/app/commit/abc123'',
       fi_extra = JStr ''by Alice'', fi_sha = JStr ''abc123'', fi_stats = None,
       fi_displayName = JUndef \<rparr>"

definition example_stat :: commit_stats where
  "example_stat = \<lparr> cs_sha = JStr ''abc123'', additions = JNum 3, deletions = JNum 1,
                     filesChanged = JNum 2 \<rparr>"

text \<open>
  A repository \<^verbatim>\<open>octo/app\<close> whose metadata was last pushed on 1 May and last updated on
  3 May, with a push of seven commits and a star among its events. The upstream answers
  304 to a request that carries the current token.
\<close>

definition rate_headers :: "string js_map" where
  "rate_headers = [(''x-ratelimit-limit'', ''5000''), (''x-ratelimit-remaining'', ''4990''),
                   (''x-ratelimit-reset'', ''1714730000'')]"

definition raw_commit :: "string \<Rightarrow> json" where
  "raw_commit sha = JObj [(''sha'', JStr sha), (''message'', JStr (''Change '' @ sha))]"

definition raw_push :: json where
  "raw_push =
     JObj [(''type'', JStr ''PushEvent''),
           (''actor'', JObj [(''login'', JStr ''alice'')]),
           (''created_at'', JStr ''2024-05-02T10:00:00Z''),
           (''payload'', JObj [(''ref'', JStr ''refs/heads/main''),
              (''commits'', JArr (map raw_commit
                 [''c1'', ''c2'', ''c3'', ''c4'', ''c5'', ''c6'', ''c7'']))])]"

definition raw_watch :: json where
  "raw_watch =
     JObj [(''type'', JStr ''WatchEvent''),
           (''actor'', JObj [(''login'', JStr ''bob'')]),
           (''created_at'', JStr ''2024-05-03T10:00:00Z''),
           (''payload'', JObj [(''action'', JStr ''started'')])]"

definition raw_info :: json where
  "raw_info =
     JObj [(''html_url'', JStr ''https://github.com/octo/app''),
           (''description'', JNull),
           (''stargazers_count'', JNum 12),
           (''forks_count'', JNum 3),
           (''open_issues_count'', JNum 1),
           (''pushed_at'', JStr ''2024-05-01T10:00:00Z''),
           (''updated_at'', JStr ''2024-05-03T10:00:00Z''),
           (''default_branch'', JStr ''main'')]"

definition raw_commit_detail :: json where
  "raw_commit_detail =
     JObj [(''stats'', JObj [(''additions'', JNum 3), (''deletions'', JNum 1), (''total'', JNum 4)]),
           (''files'', JArr [JObj [(''filename'', JStr ''a.ts'')], JObj [(''filename'', JStr ''b.ts'')]])]"

definition reply :: "nat \<Rightarrow> string js_map \<Rightarrow> json option \<Rightarrow> response" where
  "reply st hs b =
     \<lparr> status = st, statusText = [], headers = hs @ rate_headers, body_text = Some [],
       body_json = b \<rparr>"

definition example_upstream :: "request \<Rightarrow> response option" where
  "example_upstream rq =
     (if req_url rq = ''https://api.github.com/repos/octo/app'' then
        (if map_get (req_headers rq) ''if-none-match'' = Some ''i1''
         then Some (reply 304 [] None)
         else Some (reply 200 [(''etag'', ''i1'')] (Some raw_info)))
      else if req_url rq = ''https://api.github.com/networks/octo/app/events?per_page=30'' then
        (if map_get (req_headers rq) ''if-none-match'' = Some ''e1''
         then Some (reply 304 [] None)
         else Some (reply 200 [(''etag'', ''e1'')] (Some (JArr [raw_push, raw_watch]))))
      else if prefix ''https://api.github.com/repos/octo/app/commits/'' (req_url rq) then
        Some (reply 200 [] (Some raw_commit_detail))
      else Some (reply 404 [] None))"

definition repo_app :: config_repo where
  "repo_app = \<lparr>cr_id = ''octo/app'', cr_name = ''App''\<rparr>"

definition empty_store :: data_store where
  "empty_store = \<lparr> repoInfos = [], repoEvents = [], feedItems = [], commitStats = [],
                    qualityReports = [] \<rparr>"


definition info_url :: string where
  "info_url = ''https://api.github.com/repos/octo/app''"


text \<open>A client and a store that have seen the repository before.\<close>

definition cached_client :: github_client where
  "cached_client =
     (new_client None)\<lparr>etags := \<lparr> etag_info = [(''octo/app'', ''i1'')],
                                     etag_events = [(''octo/app'', ''e1'')],
                                     etag_commits = [] \<rparr>\<rparr>"

definition cached_store :: data_store where
  "cached_store = empty_store\<lparr>repoEvents := [(''octo/app'', [example_watch])]\<rparr>"

text \<open>A store with the metadata of the two configured repositories.\<close>

definition info_at :: "string \<Rightarrow> string \<Rightarrow> repo_info" where
  "info_at repoId stamp =
     \<lparr> ri_repo = repoId, ri_displayName = None, html_url = JStr (''https://github.com/'' @ repoId),
       description = JNull, stargazers_count = JNum 0, forks_count = JNum 0,
       open_issues_count = JNum 0, pushed_at = JStr stamp, default_branch = JStr ''main'' \<rparr>"

definition two_infos :: data_store where
  "two_infos = empty_store\<lparr>repoInfos :=
      [(''octo/app'', info_at ''octo/app'' ''2024-05-01T10:00:00Z''),
       (''octo/lib'', info_at ''octo/lib'' ''2024-05-03T10:00:00Z'')]\<rparr>"

section \<open>Auxiliary facts\<close>

subsection \<open>Maps and tokens\<close>

lemma map_of_map_set: "map_of (map_set m k v) = (map_of m)(k \<mapsto> v)"
  by (induction m) (auto simp: fun_eq_iff)

lemma map_get_map_set: "map_get (map_set m k v) k' = (if k' = k then Some v else map_get m k')"
  by (simp add: map_get_def map_of_map_set)

lemma map_has_map_set: "map_has (map_set m k v) k' = (k' = k \<or> map_has m k')"
  by (simp add: map_has_def map_of_map_set)

lemma etag_get_etag_set:
  "etag_get (etag_set c ek t) k = (if k = ek then Some t else etag_get c k)"
  by (cases ek; cases k; cases "fst ek"; cases "fst k")
     (auto simp: etag_get_def etag_set_def map_get_map_set)

lemma on_response_304:
  "status res = 304 \<Longrightarrow>
   on_response gh url ek (Some res) = (Inr Status304, gh\<lparr>rate := updateRateLimit res\<rparr>)"
  by (simp add: on_response_def)

lemma on_response_etags:
  "etag_get (etags (snd (on_response gh url ek fetched))) k \<noteq> etag_get (etags gh) k \<Longrightarrow>
   \<exists>res data t. fetched = Some res \<and> ok res \<and> status res \<noteq> 304 \<and>
     fst (on_response gh url ek fetched) = Inr (Status200 data) \<and> body_json res = Some data \<and>
     map_get (headers res) ''etag'' = Some t \<and> t \<noteq> [] \<and> ek = Some k \<and>
     etag_get (etags (snd (on_response gh url ek fetched))) k = Some t"
  by (auto simp: on_response_def Let_def etag_get_etag_set
           split: option.splits if_splits)

lemma if_none_match_sent:
  "etag_get (etags gh) k = Some t \<Longrightarrow> t \<noteq> [] \<Longrightarrow>
   map_get (req_headers (conditional_request gh url (Some k))) ''if-none-match'' = Some t"
  by (auto simp: conditional_request_def ghHeaders_def Let_def map_get_map_set split: option.splits)

lemma req_url_conditional: "req_url (conditional_request gh url ek) = url"
  by (simp add: conditional_request_def Let_def)

subsection \<open>Traversals that may throw\<close>

lemma map_res_all:
  "\<forall>x \<in> set xs. \<exists>y. f x = Inr y \<Longrightarrow>
   \<exists>ys. map_res f xs = Inr ys \<and> length ys = length xs \<and> (\<forall>i < length xs. f (xs ! i) = Inr (ys ! i))"
proof (induction xs)
  case Nil
  then show ?case by simp
next
  case (Cons x xs)
  then obtain y ys where y: "f x = Inr y" and ys: "map_res f xs = Inr ys" "length ys = length xs"
    "\<forall>i < length xs. f (xs ! i) = Inr (ys ! i)" by auto
  have "\<forall>i < length (x # xs). f ((x # xs) ! i) = Inr ((y # ys) ! i)"
    using y ys(3) by (auto simp: nth_Cons split: nat.splits)
  then show ?case using y ys by auto
qed



lemma map_res_map_sum:
  "map_res (\<lambda>x. map_ok g (f x)) xs = map_ok (map g) (map_res f xs)"
  by (induction xs) (auto split: sum.splits)

subsection \<open>Sorting\<close>


lemma sort_insert_keyed:
  assumes "\<forall>y \<in> set ys. cmp x y = Inr (Some (key y - key x))"
  shows "\<exists>r. sort_insert cmp x ys = Inr r \<and> mset r = mset (x # ys) \<and>
       (sorted_wrt (\<lambda>a b. key b \<le> key a) ys \<longrightarrow> sorted_wrt (\<lambda>a b. key b \<le> key a) r)"
  using assms
proof (induction ys)
  case Nil
  then show ?case by simp
next
  case (Cons y ys)
  then obtain r where
    r: "sort_insert cmp x ys = Inr r" "mset r = mset (x # ys)"
       "sorted_wrt (\<lambda>a b. key b \<le> key a) ys \<longrightarrow> sorted_wrt (\<lambda>a b. key b \<le> key a) r"
    by auto
  have cmp: "cmp x y = Inr (Some (key y - key x))" using Cons.prems by simp
  show ?case
  proof (cases "key x < key y")
    case True
    have set_r: "set r = insert x (set ys)" using r(2) by (metis mset_eq_setD list.simps(15))
    have "sorted_wrt (\<lambda>a b. key b \<le> key a) (y # ys) \<longrightarrow> sorted_wrt (\<lambda>a b. key b \<le> key a) (y # r)"
      using r(3) True set_r by auto
    then show ?thesis using cmp True r by simp
  next
    case False
    have "sorted_wrt (\<lambda>a b. key b \<le> key a) (y # ys) \<longrightarrow>
          sorted_wrt (\<lambda>a b. key b \<le> key a) (x # y # ys)"
      using False by auto
    then show ?thesis using cmp False by simp
  qed
qed

lemma js_sort_keyed:
  assumes "\<forall>x \<in> set xs. \<forall>y \<in> set xs. cmp x y = Inr (Some (key y - key x))"
  shows "\<exists>r. js_sort cmp xs = Inr r \<and> mset r = mset xs \<and> sorted_wrt (\<lambda>a b. key b \<le> key a) r"
  using assms
proof (induction xs)
  case Nil
  then show ?case by simp
next
  case (Cons x xs)
  then obtain s where
    s: "js_sort cmp xs = Inr s" "mset s = mset xs" "sorted_wrt (\<lambda>a b. key b \<le> key a) s"
    by auto
  have "set s = set xs" using s(2) by (metis mset_eq_setD)
  then have "\<forall>y \<in> set s. cmp x y = Inr (Some (key y - key x))" using Cons.prems by simp
  from sort_insert_keyed [of s cmp x key, OF this] s show ?case by auto
qed




lemma sort_insert_map:
  assumes "\<And>x y. cmp (g x) (g y) = cmp x y"
  shows "sort_insert cmp (g x) (map g ys) = map_ok (map g) (sort_insert cmp x ys)"
  by (induction ys) (auto simp: assms split: sum.splits)

lemma js_sort_map:
  assumes "\<And>x y. cmp (g x) (g y) = cmp x y"
  shows "js_sort cmp (map g xs) = map_ok (map g) (js_sort cmp xs)"
proof (induction xs)
  case Nil
  then show ?case by simp
next
  case (Cons x xs)
  then show ?case
    by (cases "js_sort cmp xs") (simp_all add: sort_insert_map [of cmp g, OF assms])
qed


lemma slice0_map: "slice0 n (map g xs) = map g (slice0 n xs)"
  by (simp add: slice0_def take_map)

subsection \<open>The commit shas of a batch\<close>







subsection \<open>What updateRepo writes\<close>



lemma repoEvents_store_info: "repoEvents (store_info repo r store) = repoEvents store"
  by (auto simp: store_info_def split: sum.splits option.splits)


lemma updateRepo_repoEvents:
  "repoEvents (ur_store (updateRepo net gh store repo)) =
     (case fst (getRepoEvents net (snd (getRepoInfo net gh (cr_id repo))) (cr_id repo)) of
        Inl e \<Rightarrow> repoEvents store
      | Inr events \<Rightarrow>
          if events \<noteq> [] \<or> \<not> map_has (repoEvents store) (cr_id repo)
          then map_set (repoEvents store) (cr_id repo) events
          else repoEvents store)"
  by (auto simp: updateRepo_def Let_def store_events_def repoEvents_store_info
           split: prod.splits sum.splits)

lemma updateRepo_repoInfos:
  "repoInfos (ur_store (updateRepo net gh store repo)) =
   repoInfos (store_info repo (fst (getRepoInfo net gh (cr_id repo))) store)"
  by (auto simp: updateRepo_def Let_def store_events_def
           split: prod.splits sum.splits)

subsection \<open>The example data\<close>



section \<open>Stale preference (C1)\<close>

text \<open>
  C1. For every repository, store, client and upstream: (1) when the events fetch of the
  update succeeds with an empty batch and a batch is cached for the repository, the map of
  cached batches after \<^verbatim>\<open>updateRepo\<close> is the map before it; (2) the map differs after the
  update only if the fetch succeeded with a batch that is non-empty or with no batch cached
  before, and then the fetched batch is what is stored; (3) a 304 response to the events
  request is such a success with an empty batch.
\<close>

theorem stale_preference:
  "(fst (getRepoEvents net (snd (getRepoInfo net gh (cr_id repo))) (cr_id repo)) = Inr [] \<and>
    map_has (repoEvents store) (cr_id repo) \<longrightarrow>
      repoEvents (ur_store (updateRepo net gh store repo)) = repoEvents store) \<and>
   (repoEvents (ur_store (updateRepo net gh store repo)) \<noteq> repoEvents store \<longrightarrow>
      (\<exists>events. fst (getRepoEvents net (snd (getRepoInfo net gh (cr_id repo))) (cr_id repo)) = Inr events \<and>
         (events \<noteq> [] \<or> \<not> map_has (repoEvents store) (cr_id repo)) \<and>
         repoEvents (ur_store (updateRepo net gh store repo)) =
           map_set (repoEvents store) (cr_id repo) events)) \<and>
   (\<forall>gh1 res. net (conditional_request gh1
        (''https://api.github.com/networks/'' @ cr_id repo @ ''/events?per_page=30'')
        (Some (SlotEvents, cr_id repo))) = Some res \<and> status res = 304 \<longrightarrow>
      fst (getRepoEvents net gh1 (cr_id repo)) = Inr [])"
  by (auto simp: updateRepo_repoEvents getRepoEvents_def fetchJsonWithEtag_def on_response_304
           split: sum.splits)

text \<open>
  On the example upstream, with a batch cached and the current tokens in the client: the
  events fetch is unchanged, and the cached batch stays.
\<close>

theorem stale_preference_witness:
  "map_has (repoEvents cached_store) ''octo/app'' \<and>
   fst (getRepoEvents example_upstream
          (snd (getRepoInfo example_upstream cached_client ''octo/app'')) ''octo/app'') = Inr [] \<and>
   repoEvents (ur_store (updateRepo example_upstream cached_client cached_store repo_app)) =
     [(''octo/app'', [example_watch])]"
proof -
  have h: "map_has (repoEvents cached_store) ''octo/app''" by code_simp
  have e: "fst (getRepoEvents example_upstream
          (snd (getRepoInfo example_upstream cached_client ''octo/app'')) ''octo/app'') = Inr []"
    by code_simp
  have c: "repoEvents cached_store = [(''octo/app'', [example_watch])]"
    by (simp add: cached_store_def empty_store_def)
  from stale_preference [of example_upstream cached_client repo_app cached_store] h e c
  show ?thesis by (simp add: repo_app_def)
qed

section \<open>The bound and the order of the feed (C2)\<close>




section \<open>Bounded fan-out (C3)\<close>



section \<open>The metadata timestamp and the queue (C4)\<close>

lemma byPushedAt_known:
  "known dp infos a \<Longrightarrow> known dp infos b \<Longrightarrow>
   byPushedAt dp infos a b = Inr (Some (pushed_ms dp infos b - pushed_ms dp infos a))"
  by (auto simp: known_def pushed_ms_def byPushedAt_def split: option.splits sum.splits)

lemma buildQueue_sorted:
  assumes "\<forall>r \<in> set (repos cfg). known dp (repoInfos store) r"
  shows "\<exists>q. buildQueue dp cfg store = Inr q \<and> mset q = mset (repos cfg) \<and>
     sorted_wrt (\<lambda>a b. pushed_ms dp (repoInfos store) b \<le> pushed_ms dp (repoInfos store) a) q"
  unfolding buildQueue_def
  by (rule js_sort_keyed) (use assms in \<open>simp add: byPushedAt_known\<close>)

lemma getRepoInfo_200:
  assumes "fetchJsonWithEtag net gh (''https://api.github.com/repos/'' @ repoId)
             (Some (SlotInfo, repoId)) = (Inr (Status200 info), gh')"
    and "\<not> nullish info"
  shows "\<exists>i. getRepoInfo net gh repoId = (Inr (Some i), gh') \<and>
             repo_info_of repoId info = Inr i \<and> pushed_at i = js_prop info ''updated_at''"
  using assms by (simp add: getRepoInfo_def repo_info_of_def)

text \<open>
  C4, as the code has it. (1) For every successful metadata fetch with a body that is not
  \<^verbatim>\<open>null\<close>, the \<open>RepoInfo\<close> that \<^verbatim>\<open>getRepoInfo\<close> returns has as its \<open>pushed_at\<close> the
  \<^verbatim>\<open>updated_at\<close> field of the response, and \<^verbatim>\<open>updateRepo\<close> stores that info, with the
  configured display name, under the repository's id. (2) When every configured repository
  is known, \<^verbatim>\<open>buildQueue\<close> returns the configured repositories ordered by that attribute,
  descending.
\<close>

theorem pushed_at_is_updated_at:
  "(\<forall>info gh'. fetchJsonWithEtag net gh (''https://api.github.com/repos/'' @ cr_id repo)
        (Some (SlotInfo, cr_id repo)) = (Inr (Status200 info), gh') \<and> \<not> nullish info \<longrightarrow>
      (\<exists>i. getRepoInfo net gh (cr_id repo) = (Inr (Some i), gh') \<and>
           pushed_at i = js_prop info ''updated_at'' \<and>
           map_get (repoInfos (ur_store (updateRepo net gh store repo))) (cr_id repo) =
             Some (i\<lparr>ri_displayName := Some (cr_name repo)\<rparr>))) \<and>
   ((\<forall>r \<in> set (repos cfg). known dp (repoInfos store) r) \<longrightarrow>
      (\<exists>q. buildQueue dp cfg store = Inr q \<and> mset q = mset (repos cfg) \<and>
         sorted_wrt (\<lambda>a b. pushed_ms dp (repoInfos store) b \<le> pushed_ms dp (repoInfos store) a) q))"
proof (intro conjI allI impI)
  fix info gh'
  assume a: "fetchJsonWithEtag net gh (''https://api.github.com/repos/'' @ cr_id repo)
        (Some (SlotInfo, cr_id repo)) = (Inr (Status200 info), gh') \<and> \<not> nullish info"
  then obtain i where i: "getRepoInfo net gh (cr_id repo) = (Inr (Some i), gh')"
      "pushed_at i = js_prop info ''updated_at''"
    using getRepoInfo_200 by blast
  have "map_get (repoInfos (ur_store (updateRepo net gh store repo))) (cr_id repo) =
             Some (i\<lparr>ri_displayName := Some (cr_name repo)\<rparr>)"
    using i(1) by (simp add: updateRepo_repoInfos store_info_def map_get_map_set)
  with i show "\<exists>i. getRepoInfo net gh (cr_id repo) = (Inr (Some i), gh') \<and>
           pushed_at i = js_prop info ''updated_at'' \<and>
           map_get (repoInfos (ur_store (updateRepo net gh store repo))) (cr_id repo) =
             Some (i\<lparr>ri_displayName := Some (cr_name repo)\<rparr>)" by blast
next
  assume "\<forall>r \<in> set (repos cfg). known dp (repoInfos store) r"
  then show "\<exists>q. buildQueue dp cfg store = Inr q \<and> mset q = mset (repos cfg) \<and>
         sorted_wrt (\<lambda>a b. pushed_ms dp (repoInfos store) b \<le> pushed_ms dp (repoInfos store) a) q"
    by (rule buildQueue_sorted)
qed

text \<open>
  On the example upstream the stored info carries 3 May, the day of the last update; and
  the queue over the two known repositories has the one of 3 May first.
\<close>

theorem pushed_at_is_updated_at_witness:
  "map_option pushed_at (map_get (repoInfos (ur_store
       (updateRepo example_upstream (new_client None) empty_store repo_app))) ''octo/app'') =
     Some (JStr ''2024-05-03T10:00:00Z'') \<and>
   buildQueue example_parse example_cfg two_infos =
     Inr [\<lparr>cr_id = ''octo/lib'', cr_name = ''Lib''\<rparr>, \<lparr>cr_id = ''octo/app'', cr_name = ''App''\<rparr>] \<and>
   pushed_ms example_parse (repoInfos two_infos) \<lparr>cr_id = ''octo/app'', cr_name = ''App''\<rparr>
     \<le> pushed_ms example_parse (repoInfos two_infos) \<lparr>cr_id = ''octo/lib'', cr_name = ''Lib''\<rparr>"
proof -
  let ?f = "fetchJsonWithEtag example_upstream (new_client None)
              (''https://api.github.com/repos/'' @ cr_id repo_app) (Some (SlotInfo, cr_id repo_app))"
  have "fst ?f = Inr (Status200 raw_info)" by code_simp
  then have f: "?f = (Inr (Status200 raw_info), snd ?f)" by (metis prod.collapse)
  have nn: "\<not> nullish raw_info" by code_simp
  have u: "js_prop raw_info ''updated_at'' = JStr ''2024-05-03T10:00:00Z''" by code_simp
  have k: "\<forall>r \<in> set (repos example_cfg). known example_parse (repoInfos two_infos) r"
    by code_simp
  have q: "buildQueue example_parse example_cfg two_infos =
     Inr [\<lparr>cr_id = ''octo/lib'', cr_name = ''Lib''\<rparr>, \<lparr>cr_id = ''octo/app'', cr_name = ''App''\<rparr>]"
    by code_simp
  from pushed_at_is_updated_at [where net = example_upstream and gh = "new_client None"
         and repo = repo_app and store = empty_store] f nn
  obtain i where i: "pushed_at i = js_prop raw_info ''updated_at''"
    "map_get (repoInfos (ur_store (updateRepo example_upstream (new_client None) empty_store
        repo_app))) (cr_id repo_app) = Some (i\<lparr>ri_displayName := Some (cr_name repo_app)\<rparr>)"
    by blast
  from pushed_at_is_updated_at [where cfg = example_cfg and dp = example_parse
         and store = two_infos] k
  obtain q' where "buildQueue example_parse example_cfg two_infos = Inr q'"
    "sorted_wrt (\<lambda>a b. pushed_ms example_parse (repoInfos two_infos) b
                      \<le> pushed_ms example_parse (repoInfos two_infos) a) q'"
    by blast
  with q have "pushed_ms example_parse (repoInfos two_infos) \<lparr>cr_id = ''octo/app'', cr_name = ''App''\<rparr>
     \<le> pushed_ms example_parse (repoInfos two_infos) \<lparr>cr_id = ''octo/lib'', cr_name = ''Lib''\<rparr>"
    by simp
  with i u q show ?thesis by (simp add: repo_app_def)
qed

text \<open>
  C4 as it is stated fails: the example repository was last pushed on 1 May and last
  updated on 3 May, and the \<open>pushed_at\<close> of the info that \<^verbatim>\<open>getRepoInfo\<close> returns is 3 May.
\<close>

theorem pushed_at_counterexample:
  "fst (fetchJsonWithEtag example_upstream (new_client None) info_url
         (Some (SlotInfo, ''octo/app''))) = Inr (Status200 raw_info) \<and>
   js_prop raw_info ''pushed_at'' = JStr ''2024-05-01T10:00:00Z'' \<and>
   (case fst (getRepoInfo example_upstream (new_client None) ''octo/app'') of
      Inr (Some i) \<Rightarrow> pushed_at i | _ \<Rightarrow> JUndef) = JStr ''2024-05-03T10:00:00Z'' \<and>
   (case fst (getRepoInfo example_upstream (new_client None) ''octo/app'') of
      Inr (Some i) \<Rightarrow> pushed_at i | _ \<Rightarrow> JUndef) \<noteq> js_prop raw_info ''pushed_at''"
  by code_simp

section \<open>Push expansion (C5)\<close>

lemma js_prop_JStr_not_nullish: "js_prop c k = JStr m \<Longrightarrow> \<not> nullish c"
  by (cases c) (auto simp: nullish_def)

lemma js_prop_JArr_not_nullish: "js_prop c k = JArr m \<Longrightarrow> \<not> nullish c"
  by (cases c) (auto simp: nullish_def)

lemma commit_item_wf:
  assumes "commit_wf actor c"
  shows "\<exists>m s w. js_prop c ''message'' = JStr m \<and> to_str (js_prop c ''sha'') = Inr s \<and>
     commit_item created repo actor urlBase branch c =
       Inr \<lparr> fi_type = JStr ''Commit'', fi_icon = icon_commit, fi_when = created, fi_repo = repo,
             fi_actor = actor,
             fi_title = JStr (''Commit to '' @ branch @ '': '' @ takeWhile (\<lambda>c. c \<noteq> CHR 0x0A) m),
             fi_url = JStr (urlBase @ ''/commit/'' @ s),
             fi_extra = JStr (''by '' @ w),
             fi_sha = js_prop c ''sha'', fi_stats = None, fi_displayName = JUndef \<rparr>"
proof -
  from assms obtain m where m: "js_prop c ''message'' = JStr m"
    by (auto simp: commit_wf_def split: json.splits)
  from assms obtain s where s: "to_str (js_prop c ''sha'') = Inr s"
    by (auto simp: commit_wf_def printable_def split: sum.splits)
  from assms obtain w where w: "to_str (coalesce (coalesce (opt_prop (js_prop c ''author'') ''name'') actor) (JStr '''')) = Inr w"
    by (auto simp: commit_wf_def printable_def split: sum.splits)
  have nn: "\<not> nullish c" using m by (rule js_prop_JStr_not_nullish)
  show ?thesis
    using m s w nn by (simp add: commit_item_def get_prop_def first_line_def)
qed

lemma remove_first_prefix:
  assumes "pat \<noteq> []"
  shows "remove_first pat (pat @ b) = b"
proof -
  from assms obtain c cs where e: "pat @ b = c # cs" by (cases pat) auto
  have p: "prefix pat (c # cs)" using e by (metis prefixI)
  have "remove_first pat (c # cs) = drop (length pat) (c # cs)" using p by simp
  also have "\<dots> = b" using e by (metis append_eq_conv_conj)
  finally show ?thesis using e by simp
qed

text \<open>
  C5. For every push event whose payload carries a list of commits, whose ref is absent
  or a string and whose commits are well formed, \<^verbatim>\<open>eventToFeedItems\<close> returns one item per
  commit, in order: of type \<^verbatim>\<open>Commit\<close>, with the commit's sha, linked to
  \<^verbatim>\<open>https://github.com/<repo>/commit/<sha>\<close>, and titled \<^verbatim>\<open>Commit to <branch>: <line>\<close> with
  the first line of the commit's message and, as the branch, the ref without its first
  \<^verbatim>\<open>refs/heads/\<close>, which for a ref that starts with \<^verbatim>\<open>refs/heads/\<close> is the rest of it.
\<close>

theorem push_expansion:
  assumes ty: "js_prop ev ''type'' = JStr ''PushEvent''"
    and repo: "to_str (js_prop ev ''__repo'') = Inr r"
    and cs: "js_prop (js_prop ev ''payload'') ''commits'' = JArr commits"
    and ref: "coalesce (js_prop (js_prop ev ''payload'') ''ref'') (JStr '''') = JStr ref"
    and wf: "\<forall>c \<in> set commits. commit_wf (actor_of ev) c"
  shows "\<exists>items. eventToFeedItems ev = Inr items \<and> length items = length commits \<and>
      (\<forall>i < length commits.
         fi_type (items ! i) = JStr ''Commit'' \<and>
         fi_sha (items ! i) = js_prop (commits ! i) ''sha'' \<and>
         (\<exists>s. to_str (js_prop (commits ! i) ''sha'') = Inr s \<and>
              fi_url (items ! i) = JStr (''https://github.com/'' @ r @ ''/commit/'' @ s)) \<and>
         (\<exists>m. js_prop (commits ! i) ''message'' = JStr m \<and>
              fi_title (items ! i) =
                JStr (''Commit to '' @ remove_first ''refs/heads/'' ref @ '': '' @
                      takeWhile (\<lambda>c. c \<noteq> CHR 0x0A) m))) \<and>
      (\<forall>b. ref = ''refs/heads/'' @ b \<longrightarrow> remove_first ''refs/heads/'' ref = b)"
proof -
  let ?f = "commit_item (js_prop ev ''created_at'') (js_prop ev ''__repo'') (actor_of ev)
              (''https://github.com/'' @ r) (remove_first ''refs/heads/'' ref)"
  have nn: "\<not> nullish ev" using ty by (rule js_prop_JStr_not_nullish)
  have pn: "\<not> nullish (js_prop ev ''payload'')" using cs by (rule js_prop_JArr_not_nullish)
  have "\<forall>c \<in> set commits. \<exists>y. ?f c = Inr y"
    using wf commit_item_wf by blast
  from map_res_all [OF this] obtain items where
    items: "map_res ?f commits = Inr items" "length items = length commits"
      "\<forall>i < length commits. ?f (commits ! i) = Inr (items ! i)" by blast
  have body: "event_body ev (event_type ev) (js_prop ev ''__repo'') (actor_of ev)
                (''https://github.com/'' @ r) = Inr items"
    using ty cs ref pn items(1)
    by (simp add: event_body_def event_type_def coalesce_def nullish_def strip_heads_def
                  array_elems_def)
  have res: "eventToFeedItems ev = Inr items"
    using nn repo body by (simp add: eventToFeedItems_def)
  have each: "\<forall>i < length commits.
         fi_type (items ! i) = JStr ''Commit'' \<and>
         fi_sha (items ! i) = js_prop (commits ! i) ''sha'' \<and>
         (\<exists>s. to_str (js_prop (commits ! i) ''sha'') = Inr s \<and>
              fi_url (items ! i) = JStr (''https://github.com/'' @ r @ ''/commit/'' @ s)) \<and>
         (\<exists>m. js_prop (commits ! i) ''message'' = JStr m \<and>
              fi_title (items ! i) =
                JStr (''Commit to '' @ remove_first ''refs/heads/'' ref @ '': '' @
                      takeWhile (\<lambda>c. c \<noteq> CHR 0x0A) m))"
  proof (intro allI impI)
    fix i assume i: "i < length commits"
    then have "commit_wf (actor_of ev) (commits ! i)" using wf by simp
    from commit_item_wf [OF this, of "js_prop ev ''created_at''" "js_prop ev ''__repo''"
           "''https://github.com/'' @ r" "remove_first ''refs/heads/'' ref"]
    obtain m s w where
      m: "js_prop (commits ! i) ''message'' = JStr m" and
      s: "to_str (js_prop (commits ! i) ''sha'') = Inr s" and
      it: "?f (commits ! i) =
        Inr \<lparr> fi_type = JStr ''Commit'', fi_icon = icon_commit, fi_when = js_prop ev ''created_at'',
              fi_repo = js_prop ev ''__repo'', fi_actor = actor_of ev,
              fi_title = JStr (''Commit to '' @ remove_first ''refs/heads/'' ref @ '': '' @
                               takeWhile (\<lambda>c. c \<noteq> CHR 0x0A) m),
              fi_url = JStr ((''https://github.com/'' @ r) @ ''/commit/'' @ s),
              fi_extra = JStr (''by '' @ w),
              fi_sha = js_prop (commits ! i) ''sha'', fi_stats = None, fi_displayName = JUndef \<rparr>"
      by blast
    from items(3) i it have "items ! i =
        \<lparr> fi_type = JStr ''Commit'', fi_icon = icon_commit, fi_when = js_prop ev ''created_at'',
              fi_repo = js_prop ev ''__repo'', fi_actor = actor_of ev,
              fi_title = JStr (''Commit to '' @ remove_first ''refs/heads/'' ref @ '': '' @
                               takeWhile (\<lambda>c. c \<noteq> CHR 0x0A) m),
              fi_url = JStr ((''https://github.com/'' @ r) @ ''/commit/'' @ s),
              fi_extra = JStr (''by '' @ w),
              fi_sha = js_prop (commits ! i) ''sha'', fi_stats = None, fi_displayName = JUndef \<rparr>"
      by simp
    with m s show "fi_type (items ! i) = JStr ''Commit'' \<and>
         fi_sha (items ! i) = js_prop (commits ! i) ''sha'' \<and>
         (\<exists>s. to_str (js_prop (commits ! i) ''sha'') = Inr s \<and>
              fi_url (items ! i) = JStr (''https://github.com/'' @ r @ ''/commit/'' @ s)) \<and>
         (\<exists>m. js_prop (commits ! i) ''message'' = JStr m \<and>
              fi_title (items ! i) =
                JStr (''Commit to '' @ remove_first ''refs/heads/'' ref @ '': '' @
                      takeWhile (\<lambda>c. c \<noteq> CHR 0x0A) m))"
      by simp
  qed
  have pre: "\<forall>b. ref = ''refs/heads/'' @ b \<longrightarrow> remove_first ''refs/heads/'' ref = b"
    using remove_first_prefix [of "''refs/heads/''"] by auto
  from res items(2) each pre show ?thesis by blast
qed

text \<open>The push of the example store, with its two commits.\<close>

theorem push_expansion_witness:
  "map fi_title (case eventToFeedItems example_push of Inr items \<Rightarrow> items | Inl e \<Rightarrow> []) =
     [JStr ''Commit to main: Fix bug'', JStr ''Commit to main: Add feature''] \<and>
   map fi_sha (case eventToFeedItems example_push of Inr items \<Rightarrow> items | Inl e \<Rightarrow> []) =
     [JStr ''abc123'', JStr ''def456''] \<and>
   length (case eventToFeedItems example_push of Inr items \<Rightarrow> items | Inl e \<Rightarrow> []) = 2"
proof -
  let ?commits = "[JObj [(''sha'', JStr ''abc123''),
                         (''message'', JStr (''Fix bug'' @ [CHR 0x0A] @ ''details'')),
                         (''author'', JObj [(''name'', JStr ''Alice'')])],
                   JObj [(''sha'', JStr ''def456''), (''message'', JStr ''Add feature'')]]"
  have ty: "js_prop example_push ''type'' = JStr ''PushEvent''" by code_simp
  have repo: "to_str (js_prop example_push ''__repo'') = Inr ''octo/app''" by code_simp
  have cs: "js_prop (js_prop example_push ''payload'') ''commits'' = JArr ?commits" by code_simp
  have ref: "coalesce (js_prop (js_prop example_push ''payload'') ''ref'') (JStr []) =
             JStr ''refs/heads/main''" by code_simp
  have wf: "\<forall>c \<in> set ?commits. commit_wf (actor_of example_push) c" by code_simp
  have titles:
    "map fi_title (case eventToFeedItems example_push of Inr items \<Rightarrow> items | Inl e \<Rightarrow> []) =
       [JStr ''Commit to main: Fix bug'', JStr ''Commit to main: Add feature'']" by code_simp
  have shas:
    "map fi_sha (case eventToFeedItems example_push of Inr items \<Rightarrow> items | Inl e \<Rightarrow> []) =
       [JStr ''abc123'', JStr ''def456'']" by code_simp
  from push_expansion [OF ty repo cs ref wf] obtain items where
    "eventToFeedItems example_push = Inr items" "length items = length ?commits" by blast
  with titles shas show ?thesis by simp
qed

section \<open>Conditional fetch (C6)\<close>

text \<open>
  C6. For every upstream, client, URL and cache key: (1) when the response is a 304, the
  result is the \<open>Status304\<close> sentinel and every token entry is what it was; (2) a token
  entry differs after the call only if the call ended in its success outcome (which the
  source labels \<^verbatim>\<open>status: 200\<close>; the test is \<^verbatim>\<open>res.ok\<close>) on a response that carries a
  non-empty token, the entry is the one of the call's key, and it now holds that token;
  (3) when the upstream answers 304 to the token the first call leaves in the cache (no
  upstream change), a second call gives \<open>Status304\<close> and leaves the tokens unchanged.
\<close>

theorem conditional_fetch:
  "(\<forall>res. net (conditional_request gh url ek) = Some res \<and> status res = 304 \<longrightarrow>
      fst (fetchJsonWithEtag net gh url ek) = Inr Status304 \<and>
      etags (snd (fetchJsonWithEtag net gh url ek)) = etags gh) \<and>
   (\<forall>k. etag_get (etags (snd (fetchJsonWithEtag net gh url ek))) k \<noteq> etag_get (etags gh) k \<longrightarrow>
      (\<exists>res data t. net (conditional_request gh url ek) = Some res \<and> ok res \<and>
         fst (fetchJsonWithEtag net gh url ek) = Inr (Status200 data) \<and>
         map_get (headers res) ''etag'' = Some t \<and> t \<noteq> [] \<and> ek = Some k \<and>
         etag_get (etags (snd (fetchJsonWithEtag net gh url ek))) k = Some t)) \<and>
   (\<forall>k t. ek = Some k \<and>
      etag_get (etags (snd (fetchJsonWithEtag net gh url ek))) k = Some t \<and> t \<noteq> [] \<and>
      (\<forall>rq. req_url rq = url \<and> map_get (req_headers rq) ''if-none-match'' = Some t \<longrightarrow>
            (\<exists>res. net rq = Some res \<and> status res = 304)) \<longrightarrow>
      fst (fetchJsonWithEtag net (snd (fetchJsonWithEtag net gh url ek)) url ek) = Inr Status304 \<and>
      etags (snd (fetchJsonWithEtag net (snd (fetchJsonWithEtag net gh url ek)) url ek)) =
        etags (snd (fetchJsonWithEtag net gh url ek)))"
proof (intro conjI allI impI)
  fix res assume "net (conditional_request gh url ek) = Some res \<and> status res = 304"
  then show "fst (fetchJsonWithEtag net gh url ek) = Inr Status304"
    and "etags (snd (fetchJsonWithEtag net gh url ek)) = etags gh"
    by (simp_all add: fetchJsonWithEtag_def on_response_304)
next
  fix k assume "etag_get (etags (snd (fetchJsonWithEtag net gh url ek))) k \<noteq> etag_get (etags gh) k"
  from on_response_etags [OF this [unfolded fetchJsonWithEtag_def]]
  show "\<exists>res data t. net (conditional_request gh url ek) = Some res \<and> ok res \<and>
         fst (fetchJsonWithEtag net gh url ek) = Inr (Status200 data) \<and>
         map_get (headers res) ''etag'' = Some t \<and> t \<noteq> [] \<and> ek = Some k \<and>
         etag_get (etags (snd (fetchJsonWithEtag net gh url ek))) k = Some t"
    unfolding fetchJsonWithEtag_def by blast
next
  fix k t
  let ?gh1 = "snd (fetchJsonWithEtag net gh url ek)"
  assume a: "ek = Some k \<and> etag_get (etags ?gh1) k = Some t \<and> t \<noteq> [] \<and>
      (\<forall>rq. req_url rq = url \<and> map_get (req_headers rq) ''if-none-match'' = Some t \<longrightarrow>
            (\<exists>res. net rq = Some res \<and> status res = 304))"
  then have e: "ek = Some k" and g: "etag_get (etags ?gh1) k = Some t" and t: "t \<noteq> []"
    by blast+
  have "map_get (req_headers (conditional_request ?gh1 url ek)) ''if-none-match'' = Some t"
    unfolding e using if_none_match_sent [OF g t] e by simp
  with a obtain res where "net (conditional_request ?gh1 url ek) = Some res" "status res = 304"
    using req_url_conditional by blast
  then show "fst (fetchJsonWithEtag net ?gh1 url ek) = Inr Status304"
    and "etags (snd (fetchJsonWithEtag net ?gh1 url ek)) = etags ?gh1"
    by (simp_all add: fetchJsonWithEtag_def on_response_304)
qed

text \<open>
  On the example upstream: the first fetch of the metadata is a success and stores the
  token \<^verbatim>\<open>i1\<close>; the second is unchanged and the tokens stay.
\<close>

theorem conditional_fetch_witness:
  "fst (fetchJsonWithEtag example_upstream (new_client None) info_url (Some (SlotInfo, ''octo/app'')))
     = Inr (Status200 raw_info) \<and>
   etag_get (etags (snd (fetchJsonWithEtag example_upstream (new_client None) info_url
     (Some (SlotInfo, ''octo/app''))))) (SlotInfo, ''octo/app'') = Some ''i1'' \<and>
   fst (fetchJsonWithEtag example_upstream
     (snd (fetchJsonWithEtag example_upstream (new_client None) info_url (Some (SlotInfo, ''octo/app''))))
     info_url (Some (SlotInfo, ''octo/app''))) = Inr Status304 \<and>
   etags (snd (fetchJsonWithEtag example_upstream
     (snd (fetchJsonWithEtag example_upstream (new_client None) info_url (Some (SlotInfo, ''octo/app''))))
     info_url (Some (SlotInfo, ''octo/app'')))) =
   etags (snd (fetchJsonWithEtag example_upstream (new_client None) info_url
     (Some (SlotInfo, ''octo/app''))))"
proof -
  let ?k = "(SlotInfo, ''octo/app'')"
  let ?first = "fetchJsonWithEtag example_upstream (new_client None) info_url (Some ?k)"
  have a: "fst ?first = Inr (Status200 raw_info)" by code_simp
  have b: "etag_get (etags (snd ?first)) ?k = Some ''i1''" by code_simp
  have up: "\<forall>rq. req_url rq = info_url \<and> map_get (req_headers rq) ''if-none-match'' = Some ''i1'' \<longrightarrow>
      (\<exists>res. example_upstream rq = Some res \<and> status res = 304)"
    by (simp add: example_upstream_def reply_def info_url_def)
  have "Some ?k = Some ?k \<and> etag_get (etags (snd ?first)) ?k = Some ''i1'' \<and> ''i1'' \<noteq> [] \<and>
      (\<forall>rq. req_url rq = info_url \<and> map_get (req_headers rq) ''if-none-match'' = Some ''i1'' \<longrightarrow>
            (\<exists>res. example_upstream rq = Some res \<and> status res = 304))"
    using b up by simp
  with conditional_fetch [of example_upstream "new_client None" info_url "Some ?k"]
  have "fst (fetchJsonWithEtag example_upstream (snd ?first) info_url (Some ?k)) = Inr Status304 \<and>
        etags (snd (fetchJsonWithEtag example_upstream (snd ?first) info_url (Some ?k))) =
          etags (snd ?first)"
    by blast
  with a b show ?thesis by simp
qed

section \<open>Enrichment with commit statistics (C7)\<close>

lemma withStats_key:
  "fi_type it = JStr ''Commit'' \<Longrightarrow> truthy (fi_sha it) \<Longrightarrow> item_key it = Inr key \<Longrightarrow>
   withStats stats it =
     (case map_get stats key of Some c \<Rightarrow> Inr (it\<lparr>fi_stats := Some c\<rparr>) | None \<Rightarrow> Inr it)"
  by (cases "to_str (fi_repo it)"; cases "to_str (fi_sha it)")
     (auto simp: withStats_def item_key_def)

lemma withStats_no_key:
  "fi_type it = JStr ''Commit'' \<Longrightarrow> truthy (fi_sha it) \<Longrightarrow> item_key it = Inl e \<Longrightarrow>
   withStats stats it = Inl e"
  by (cases "to_str (fi_repo it)"; cases "to_str (fi_sha it)")
     (auto simp: withStats_def item_key_def)

lemma withStats_other:
  "\<not> (fi_type it = JStr ''Commit'' \<and> truthy (fi_sha it)) \<Longrightarrow> withStats stats it = Inr it"
  by (auto simp: withStats_def)

lemma decorate_attach:
  "decorate (map_set stats key c) names it = map_ok (attach key c) (decorate stats names it)"
proof (cases "fi_type it = JStr ''Commit'' \<and> truthy (fi_sha it)")
  case False
  then show ?thesis by (auto simp: decorate_def withStats_other attach_def)
next
  case True
  show ?thesis
  proof (cases "item_key it")
    case (Inl e)
    then show ?thesis using True by (simp add: decorate_def withStats_no_key)
  next
    case (Inr k0)
    have k: "\<And>x y. item_key (it\<lparr>fi_stats := x, fi_displayName := y\<rparr>) = Inr k0"
      "\<And>y. item_key (it\<lparr>fi_displayName := y\<rparr>) = Inr k0"
      using Inr by (simp_all add: item_key_def)
    show ?thesis
      using True Inr k
      by (auto simp: decorate_def withStats_key map_get_map_set attach_def split: option.splits)
  qed
qed

lemma byDescTime_attach: "byDescTime dp (attach k c a) (attach k c b) = byDescTime dp a b"
  by (simp add: byDescTime_def attach_def)

lemma feed_candidates_attach:
  "feed_candidates cfg (store\<lparr>commitStats := map_set (commitStats store) key c\<rparr>) =
   map_ok (map (attach key c)) (feed_candidates cfg store)"
proof -
  have "decorate (map_set (commitStats store) key c) (nameMap (repos cfg)) =
        (\<lambda>x. map_ok (attach key c) (decorate (commitStats store) (nameMap (repos cfg)) x))"
    by (rule ext) (rule decorate_attach)
  then show ?thesis
    by (cases "map_res eventToFeedItems (allEvents store)")
       (simp_all add: feed_candidates_def allEvents_def map_res_map_sum)
qed

lemma rebuild_attach:
  "fst (rebuildGlobalFeed dp cfg (store\<lparr>commitStats := map_set (commitStats store) key c\<rparr>)) =
     fst (rebuildGlobalFeed dp cfg store) \<and>
   (fst (rebuildGlobalFeed dp cfg store) = None \<longrightarrow>
      feedItems (snd (rebuildGlobalFeed dp cfg
         (store\<lparr>commitStats := map_set (commitStats store) key c\<rparr>))) =
      map (attach key c) (feedItems (snd (rebuildGlobalFeed dp cfg store))))"
proof (cases "feed_candidates cfg store")
  case (Inl e)
  then show ?thesis by (simp add: rebuildGlobalFeed_def feed_candidates_attach)
next
  case (Inr cands)
  have srt: "js_sort (byDescTime dp) (map (attach key c) cands) =
             map_ok (map (attach key c)) (js_sort (byDescTime dp) cands)"
    by (rule js_sort_map) (rule byDescTime_attach)
  show ?thesis
    using Inr srt
    by (cases "js_sort (byDescTime dp) cands")
       (simp_all add: rebuildGlobalFeed_def feed_candidates_attach slice0_map)
qed

text \<open>
  C7. Let \<open>it\<close> be a \<^verbatim>\<open>Commit\<close> item that carries a sha, with the key \<open>key\<close>. (1) When a
  stat is cached under the key, \<^verbatim>\<open>withStats\<close> returns the item with that stat as its stats
  and every other field as it was; (2) when none is cached, it returns the item as it is;
  (3) enriching the enriched item again changes nothing; (4) once a stat is cached under the
  key, \<^verbatim>\<open>withStats\<close> returns the item with that stat; and (5) for every store and
  configuration, a rebuild after the stat has been cached ends as the rebuild before it
  did, and its feed is the feed of the rebuild before with the stat attached to the items
  of this key, all other items and the order being the same.
\<close>

theorem enrichment:
  assumes ty: "fi_type it = JStr ''Commit''" and sha: "truthy (fi_sha it)"
    and key: "item_key it = Inr key"
  shows "(\<forall>c. map_get stats key = Some c \<longrightarrow> withStats stats it = Inr (it\<lparr>fi_stats := Some c\<rparr>)) \<and>
    (map_get stats key = None \<longrightarrow> withStats stats it = Inr it) \<and>
    and_then (withStats stats it) (withStats stats) = withStats stats it \<and>
    (\<forall>c. withStats (map_set stats key c) it = Inr (it\<lparr>fi_stats := Some c\<rparr>)) \<and>
    (\<forall>c cfg store.
       fst (rebuildGlobalFeed dp cfg (store\<lparr>commitStats := map_set (commitStats store) key c\<rparr>)) =
         fst (rebuildGlobalFeed dp cfg store) \<and>
       (fst (rebuildGlobalFeed dp cfg store) = None \<longrightarrow>
          feedItems (snd (rebuildGlobalFeed dp cfg
             (store\<lparr>commitStats := map_set (commitStats store) key c\<rparr>))) =
          map (attach key c) (feedItems (snd (rebuildGlobalFeed dp cfg store)))))"
proof -
  have k': "\<And>x. item_key (it\<lparr>fi_stats := x\<rparr>) = Inr key" using key by (simp add: item_key_def)
  have idem: "and_then (withStats stats it) (withStats stats) = withStats stats it"
    using ty sha key k' by (cases "map_get stats key") (simp_all add: withStats_key)
  show ?thesis
    using withStats_key [OF ty sha key] idem rebuild_attach
    by (simp add: map_get_map_set)
qed

text \<open>
  The first commit of the example push: no stats while the cache is empty, and the cached
  stat once it is there, in the item and in the rebuilt feed.
\<close>

theorem enrichment_witness:
  "withStats [] example_item = Inr example_item \<and>
   withStats [(''octo/app@abc123'', example_stat)] example_item =
     Inr (example_item\<lparr>fi_stats := Some example_stat\<rparr>) \<and>
   map fi_stats (feedItems (snd (rebuildGlobalFeed example_parse example_cfg example_store))) =
     [None, None] \<and>
   map fi_stats (feedItems (snd (rebuildGlobalFeed example_parse example_cfg
      (example_store\<lparr>commitStats := [(''octo/app@abc123'', example_stat)]\<rparr>)))) =
     [None, Some example_stat]"
proof -
  have ty: "fi_type example_item = JStr ''Commit''" by (simp add: example_item_def)
  have sha: "truthy (fi_sha example_item)" by (simp add: example_item_def)
  have key: "item_key example_item = Inr ''octo/app@abc123''" by code_simp
  have none: "map_get ([] :: commit_stats js_map) ''octo/app@abc123'' = None"
    by (simp add: map_get_def)
  have before:
    "map fi_stats (feedItems (snd (rebuildGlobalFeed example_parse example_cfg example_store))) =
     [None, None]" by code_simp
  have after:
    "map fi_stats (feedItems (snd (rebuildGlobalFeed example_parse example_cfg
      (example_store\<lparr>commitStats := [(''octo/app@abc123'', example_stat)]\<rparr>)))) =
     [None, Some example_stat]" by code_simp
  from enrichment [OF ty sha key, of "[]" example_parse] none
  have "withStats [] example_item = Inr example_item"
    and "withStats (map_set [] ''octo/app@abc123'' example_stat) example_item =
         Inr (example_item\<lparr>fi_stats := Some example_stat\<rparr>)"
    by blast+
  with before after show ?thesis by simp
qed

section \<open>Malformed events (C8)\<close>






section \<open>The frame of the rebuild (C10)\<close>

text \<open>
  C10. Whatever the store, the configuration and the reading of dates, the store after
  \<^verbatim>\<open>rebuildGlobalFeed\<close> is the store before it with one field assigned, \<open>feedItems\<close>: the
  maps \<open>repoInfos\<close>, \<open>repoEvents\<close>, \<open>commitStats\<close> and \<open>qualityReports\<close> are as they were.
  (When the construction of the feed throws, nothing is assigned at all.)
\<close>

theorem rebuildGlobalFeed_frame:
  "repoInfos (snd (rebuildGlobalFeed dp cfg store)) = repoInfos store \<and>
   repoEvents (snd (rebuildGlobalFeed dp cfg store)) = repoEvents store \<and>
   commitStats (snd (rebuildGlobalFeed dp cfg store)) = commitStats store \<and>
   qualityReports (snd (rebuildGlobalFeed dp cfg store)) = qualityReports store \<and>
   (\<exists>items. snd (rebuildGlobalFeed dp cfg store) = store\<lparr>feedItems := items\<rparr>)"
  by (cases "and_then (feed_candidates cfg store) (js_sort (byDescTime dp))")
     (auto simp: rebuildGlobalFeed_def intro: exI [of _ "feedItems store"])

end
